theory Spec2Isabelle
  imports Complex_Main "HOL-Library.Multiset"
begin

section \<open>JavaScript values shared by the schedule compiler and the engine\<close>

text \<open>
  Exceptions are values. The source throws the built-in \<open>Error\<close>, its own subclass
  \<open>TimeoutError\<close> (engine/timeout.ts) and, where a missing table entry is destructured,
  the runtime's \<open>TypeError\<close>. Each carries its message.
\<close>

datatype js_error = Error string | TimeoutError string | TypeError string

fun errorMessage :: "js_error \<Rightarrow> string" where
  "errorMessage (Error msg) = msg"
| "errorMessage (TimeoutError msg) = msg"
| "errorMessage (TypeError msg) = msg"

text \<open>\<open>isTimeoutError\<close>: \<open>error instanceof TimeoutError\<close>.\<close>

fun isTimeoutError :: "js_error \<Rightarrow> bool" where
  "isTimeoutError (TimeoutError msg) = True"
| "isTimeoutError e = False"

subsection \<open>Digits and numbers\<close>

text \<open>
  The regular-expression class \<open>\d\<close> is the ten ASCII digits. A JavaScript \<open>number\<close> that
  holds a count (an interval value, an hour, an attempt number) is modelled as a natural
  number or an integer; the model is exact wherever the source's doubles are, that is
  below \<open>2^53\<close>.
\<close>

definition isDigit :: "char \<Rightarrow> bool" where
  "isDigit c = (c \<in> set ''0123456789'')"

definition digitVal :: "char \<Rightarrow> nat" where
  "digitVal c = of_char c - 48"

definition digitChar :: "nat \<Rightarrow> char" where
  "digitChar n = ''0123456789'' ! n"

text \<open>\<open>parseInt(ds, 10)\<close> on a string the regular expression has shown to be all digits.\<close>

definition parseInt :: "string \<Rightarrow> nat" where
  "parseInt ds = foldl (\<lambda>acc c. 10 * acc + digitVal c) 0 ds"

text \<open>The decimal rendering of a number inside a template literal.\<close>

function numToString :: "nat \<Rightarrow> string" where
  "numToString n =
     (if n < 10 then [digitChar n] else numToString (n div 10) @ [digitChar (n mod 10)])"
  by pat_completeness auto
termination
  by (relation "measure id") auto

declare numToString.simps [simp del]

text \<open>\<open>Math.ceil(a / b)\<close> on counts.\<close>

definition ceilDiv :: "nat \<Rightarrow> nat \<Rightarrow> nat" where
  "ceilDiv a b = (a + b - 1) div b"

text \<open>\<open>xs.join(sep)\<close>.\<close>

fun join :: "string \<Rightarrow> string list \<Rightarrow> string" where
  "join sep [] = []"
| "join sep [x] = x"
| "join sep (x # y # ys) = x @ sep @ join sep (y # ys)"

section \<open>Schedule descriptors (schedule/types.ts)\<close>

datatype ScheduleType = Interval | Daily | Weekly | Monthly | Cron

text \<open>The values kept in \<open>originalParams: Record<string, unknown>\<close>.\<close>

datatype param = PString string | PStrings "string list" | PNumber int

record ScheduleDescriptor =
  type :: ScheduleType
  cron :: string
  timezone :: "string option"
  humanReadable :: string
  originalParams :: "(string \<times> param) list"

text \<open>
  A \<open>ScheduleBuilder\<close> is the object literal \<open>createScheduleBuilder\<close> returns: the five
  fields copied from the descriptor, and the method \<open>withTimezone\<close>, a closure over the
  \<open>descriptor\<close> argument. The captured descriptor is the extra field \<open>descriptor\<close>.
\<close>

record ScheduleBuilder = ScheduleDescriptor +
  descriptor :: ScheduleDescriptor

definition createScheduleBuilder :: "ScheduleDescriptor \<Rightarrow> ScheduleBuilder" where
  "createScheduleBuilder d =
     \<lparr>type = type d, cron = cron d, timezone = timezone d,
      humanReadable = humanReadable d, originalParams = originalParams d,
      descriptor = d\<rparr>"

text \<open>\<open>withTimezone(tz)\<close>: \<open>createScheduleBuilder({...descriptor, timezone: tz})\<close>.\<close>

definition withTimezone :: "ScheduleBuilder \<Rightarrow> string \<Rightarrow> ScheduleBuilder" where
  "withTimezone b tz = createScheduleBuilder ((descriptor b)\<lparr>timezone := Some tz\<rparr>)"

text \<open>
  In the program a builder is an object, and \<open>d.withTimezone(tz)\<close> is a method call on
  a reference. The store is the list of the builder objects allocated so far and a
  reference is an index into it. The call reads the object at the reference, builds the
  new object and allocates it; the source assigns to no field of an existing object.
\<close>

type_synonym heap = "ScheduleBuilder list"

definition allocBuilder :: "heap \<Rightarrow> ScheduleBuilder \<Rightarrow> nat \<times> heap" where
  "allocBuilder h b = (length h, h @ [b])"

definition callWithTimezone :: "heap \<Rightarrow> nat \<Rightarrow> string \<Rightarrow> (nat \<times> heap) option" where
  "callWithTimezone h r tz =
     (if r < length h then Some (allocBuilder h (withTimezone (h ! r) tz)) else None)"

section \<open>Interval schedules (schedule/every.ts)\<close>

text \<open>
  \<open>interval.match(/^(\d+)([smhdw])$/)\<close>: one or more digits, then exactly one unit letter
  at the end of the input. The result is the two capture groups.
\<close>

definition matchInterval :: "string \<Rightarrow> (string \<times> char) option" where
  "matchInterval interval =
     (if interval = [] then None
      else let ds = butlast interval; u = last interval
           in if ds \<noteq> [] \<and> list_all isDigit ds \<and> u \<in> set ''smhdw''
              then Some (ds, u) else None)"

text \<open>The messages of the two errors \<open>parseInterval\<close> throws.\<close>

definition invalidIntervalFormat :: "string \<Rightarrow> js_error" where
  "invalidIntervalFormat interval =
     Error (''Invalid interval format: \"'' @ interval @
       ''\". Expected format: number + unit (s/m/h/d/w). Examples: \"15m\", \"2h\", \"1d\"'')"

definition intervalNotPositive :: "nat \<Rightarrow> js_error" where
  "intervalNotPositive val =
     Error (''Interval value must be positive, got: '' @ numToString val)"

definition parseInterval :: "string \<Rightarrow> js_error + (nat \<times> char)" where
  "parseInterval interval =
     (case matchInterval interval of
        None \<Rightarrow> Inl (invalidIntervalFormat interval)
      | Some (ds, unit) \<Rightarrow>
          let val = parseInt ds
          in if val \<le> 0 then Inl (intervalNotPositive val) else Inr (val, unit))"

definition unitRank :: "char \<Rightarrow> nat" where
  "unitRank u =
     (if u = CHR ''s'' then 3 else if u = CHR ''m'' then 2
      else if u = CHR ''h'' then 1 else if u = CHR ''w'' then 1 else 0)"

function intervalToCron :: "nat \<Rightarrow> char \<Rightarrow> js_error + string" where
  "intervalToCron val unit =
     (if unit = CHR ''s'' then
        (if val < 60 then Inr (''*/'' @ numToString val @ '' * * * * *'')
         else intervalToCron (ceilDiv val 60) (CHR ''m''))
      else if unit = CHR ''m'' then
        (if val < 60 then Inr (''*/'' @ numToString val @ '' * * * *'')
         else intervalToCron (ceilDiv val 60) (CHR ''h''))
      else if unit = CHR ''h'' then
        (if val < 24 then Inr (''0 */'' @ numToString val @ '' * * *'')
         else intervalToCron (ceilDiv val 24) (CHR ''d''))
      else if unit = CHR ''d'' then
        (if val = 1 then Inr ''0 0 * * *''
         else Inr (''0 0 */'' @ numToString val @ '' * *''))
      else if unit = CHR ''w'' then
        (if val = 1 then Inr ''0 0 * * 0''
         else intervalToCron (val * 7) (CHR ''d''))
      else Inl (Error (''Unknown interval unit: '' @ [unit])))"
  by pat_completeness auto
termination
  by (relation "measure (\<lambda>(val, unit). unitRank unit)") (auto simp: unitRank_def)

declare intervalToCron.simps [simp del]

text \<open>
  \<open>unitNames[unit]\<close>; destructuring the \<open>undefined\<close> of a missing key is a \<open>TypeError\<close>.
\<close>

definition unitNames :: "char \<Rightarrow> (string \<times> string) option" where
  "unitNames unit =
     map_of [(CHR ''s'', (''second'', ''seconds'')), (CHR ''m'', (''minute'', ''minutes'')),
             (CHR ''h'', (''hour'', ''hours'')), (CHR ''d'', (''day'', ''days'')),
             (CHR ''w'', (''week'', ''weeks''))] unit"

definition intervalToHumanReadable :: "nat \<Rightarrow> char \<Rightarrow> js_error + string" where
  "intervalToHumanReadable val unit =
     (case unitNames unit of
        None \<Rightarrow> Inl (TypeError ''undefined is not iterable'')
      | Some (singular, plural) \<Rightarrow>
          let unitName = (if val = 1 then singular else plural)
          in Inr (''every '' @ numToString val @ '' '' @ unitName))"

definition every :: "string \<Rightarrow> js_error + ScheduleBuilder" where
  "every interval =
     (case parseInterval interval of
        Inl e \<Rightarrow> Inl e
      | Inr (val, unit) \<Rightarrow>
          (case intervalToCron val unit of
             Inl e \<Rightarrow> Inl e
           | Inr c \<Rightarrow>
               (case intervalToHumanReadable val unit of
                  Inl e \<Rightarrow> Inl e
                | Inr hr \<Rightarrow>
                    Inr (createScheduleBuilder
                      \<lparr>type = Interval, cron = c, timezone = None, humanReadable = hr,
                       originalParams = [(''interval'', PString interval)]\<rparr>))))"

section \<open>Times and days (schedule/utils.ts)\<close>

text \<open>
  \<open>time.match(/^(\d{1,2}):(\d{2})$/)\<close>: one or two digits, a colon, exactly two digits,
  and nothing else. The result is the two capture groups.
\<close>

fun matchTime :: "string \<Rightarrow> (string \<times> string) option" where
  "matchTime [h1, c, m1, m2] =
     (if isDigit h1 \<and> c = CHR '':'' \<and> isDigit m1 \<and> isDigit m2
      then Some ([h1], [m1, m2]) else None)"
| "matchTime [h1, h2, c, m1, m2] =
     (if isDigit h1 \<and> isDigit h2 \<and> c = CHR '':'' \<and> isDigit m1 \<and> isDigit m2
      then Some ([h1, h2], [m1, m2]) else None)"
| "matchTime time = None"

record ParsedTime =
  hour :: nat
  minute :: nat

text \<open>\<open>parseTime\<close> returns \<open>null\<close> (here \<open>None\<close>) for a string that is not a time.\<close>

definition parseTime :: "string \<Rightarrow> ParsedTime option" where
  "parseTime time =
     (case matchTime time of
        None \<Rightarrow> None
      | Some (hs, ms) \<Rightarrow>
          let h = parseInt hs; m = parseInt ms
          in if h < 0 \<or> h > 23 \<or> m < 0 \<or> m > 59 then None
             else Some \<lparr>hour = h, minute = m\<rparr>)"

text \<open>\<open>s.padStart(n, c)\<close> with a one-character filler.\<close>

definition padStart :: "nat \<Rightarrow> char \<Rightarrow> string \<Rightarrow> string" where
  "padStart n c s = replicate (n - length s) c @ s"

definition formatTime12Hour :: "nat \<Rightarrow> nat \<Rightarrow> string" where
  "formatTime12Hour h m =
     (let period = (if h \<ge> 12 then ''PM'' else ''AM'');
          hour12 = (if h = 0 then 12 else if h > 12 then h - 12 else h);
          minuteStr = padStart 2 (CHR ''0'') (numToString m)
      in numToString hour12 @ '':'' @ minuteStr @ '' '' @ period)"

text \<open>
  The type \<open>DayOfWeek\<close> is a union of seven string literals. At run time a day is a
  string; \<open>dayToken\<close> reads a string as a day and fails on any other string, which is the
  test \<open>validDays.includes(day)\<close>.
\<close>

datatype DayOfWeek = mon | tue | wed | thu | fri | sat | sun

definition validDays :: "string list" where
  "validDays = [''mon'', ''tue'', ''wed'', ''thu'', ''fri'', ''sat'', ''sun'']"

definition dayToken :: "string \<Rightarrow> DayOfWeek option" where
  "dayToken day =
     map_of [(''mon'', mon), (''tue'', tue), (''wed'', wed), (''thu'', thu),
             (''fri'', fri), (''sat'', sat), (''sun'', sun)] day"

fun dayOfWeekToCron :: "DayOfWeek \<Rightarrow> nat" where
  "dayOfWeekToCron sun = 0"
| "dayOfWeekToCron mon = 1"
| "dayOfWeekToCron tue = 2"
| "dayOfWeekToCron wed = 3"
| "dayOfWeekToCron thu = 4"
| "dayOfWeekToCron fri = 5"
| "dayOfWeekToCron sat = 6"

fun dayOfWeekToName :: "DayOfWeek \<Rightarrow> string" where
  "dayOfWeekToName sun = ''Sunday''"
| "dayOfWeekToName mon = ''Monday''"
| "dayOfWeekToName tue = ''Tuesday''"
| "dayOfWeekToName wed = ''Wednesday''"
| "dayOfWeekToName thu = ''Thursday''"
| "dayOfWeekToName fri = ''Friday''"
| "dayOfWeekToName sat = ''Saturday''"




text \<open>The error every builder throws for a string \<open>parseTime\<close> rejects.\<close>

definition invalidTimeFormat :: "string \<Rightarrow> js_error" where
  "invalidTimeFormat time =
     Error (''Invalid time format: \"'' @ time @
       ''\". Expected 24-hour format like \"09:00\" or \"17:30\"'')"

section \<open>Daily schedules (schedule/daily.ts)\<close>

text \<open>\<open>times.map(...)\<close> with a callback that throws at the first string it cannot parse.\<close>

fun parseTimes :: "string list \<Rightarrow> js_error + ParsedTime list" where
  "parseTimes [] = Inr []"
| "parseTimes (time # rest) =
     (case parseTime time of
        None \<Rightarrow> Inl (invalidTimeFormat time)
      | Some parsed \<Rightarrow>
          (case parseTimes rest of Inl e \<Rightarrow> Inl e | Inr ps \<Rightarrow> Inr (parsed # ps)))"

text \<open>
  \<open>[...new Set(xs)].sort((a, b) => a - b)\<close>: a set keeps the first occurrence of each
  value, in insertion order; the sort is numeric and ascending.
\<close>

definition uniqueSorted :: "nat list \<Rightarrow> nat list" where
  "uniqueSorted xs = sort (rev (remdups (rev xs)))"

definition dailyMixedTimes :: "string list \<Rightarrow> js_error" where
  "dailyMixedTimes ts =
     Error (''daily() with multiple times requires either the same hour or same minute. '' @
            ''Got times with different hours and minutes: '' @ join '', '' ts @ ''. '' @
            ''Create separate schedules instead.'')"

text \<open>The three shapes of a list rendered in English; \<open>pop\<close> removes the last element.\<close>

definition listPhrase :: "string list \<Rightarrow> string" where
  "listPhrase xs =
     (if length xs = 1 then xs ! 0
      else if length xs = 2 then xs ! 0 @ '' and '' @ xs ! 1
      else join '', '' (butlast xs) @ '', and '' @ last xs)"

definition daily :: "string list \<Rightarrow> js_error + ScheduleBuilder" where
  "daily ts =
     (if length ts = 0 then Inl (Error ''daily() requires at least one time argument'')
      else case parseTimes ts of
        Inl e \<Rightarrow> Inl e
      | Inr parsedTimes \<Rightarrow>
          let hours = uniqueSorted (map hour parsedTimes);
              minutes = uniqueSorted (map minute parsedTimes);
              timeStrings = map (\<lambda>t. formatTime12Hour (hour t) (minute t)) parsedTimes;
              humanReadable = ''daily at '' @ listPhrase timeStrings
          in if length parsedTimes = 1 then
               Inr (createScheduleBuilder
                 \<lparr>type = Daily,
                  cron = numToString (minute (parsedTimes ! 0)) @ '' '' @
                         numToString (hour (parsedTimes ! 0)) @ '' * * *'',
                  timezone = None, humanReadable = humanReadable,
                  originalParams = [(''times'', PStrings ts)]\<rparr>)
             else if length minutes = 1 then
               Inr (createScheduleBuilder
                 \<lparr>type = Daily,
                  cron = numToString (minutes ! 0) @ '' '' @
                         join '','' (map numToString hours) @ '' * * *'',
                  timezone = None, humanReadable = humanReadable,
                  originalParams = [(''times'', PStrings ts)]\<rparr>)
             else if length hours = 1 then
               Inr (createScheduleBuilder
                 \<lparr>type = Daily,
                  cron = join '','' (map numToString minutes) @ '' '' @
                         numToString (hours ! 0) @ '' * * *'',
                  timezone = None, humanReadable = humanReadable,
                  originalParams = [(''times'', PStrings ts)]\<rparr>)
             else Inl (dailyMixedTimes ts))"

section \<open>Weekly schedules (schedule/weekly.ts)\<close>

text \<open>The first argument of \<open>weekly\<close> is one day or an array of days.\<close>

datatype DaysArg = OneDay string | ManyDays "string list"

definition invalidDayOfWeek :: "string \<Rightarrow> js_error" where
  "invalidDayOfWeek day =
     Error (''Invalid day of week: \"'' @ day @ ''\". Expected one of: '' @
            join '', '' validDays)"

text \<open>The validation loop: the first string that is not a day is thrown.\<close>

fun validateDays :: "string list \<Rightarrow> js_error + DayOfWeek list" where
  "validateDays [] = Inr []"
| "validateDays (day # rest) =
     (case dayToken day of
        None \<Rightarrow> Inl (invalidDayOfWeek day)
      | Some d \<Rightarrow>
          (case validateDays rest of Inl e \<Rightarrow> Inl e | Inr ds \<Rightarrow> Inr (d # ds)))"

definition weekly :: "DaysArg \<Rightarrow> string \<Rightarrow> js_error + ScheduleBuilder" where
  "weekly days time =
     (let dayArray = (case days of OneDay d \<Rightarrow> [d] | ManyDays ds \<Rightarrow> ds)
      in if length dayArray = 0 then Inl (Error ''weekly() requires at least one day'')
         else case validateDays dayArray of
           Inl e \<Rightarrow> Inl e
         | Inr validated \<Rightarrow>
             (case parseTime time of
                None \<Rightarrow> Inl (invalidTimeFormat time)
              | Some parsedTime \<Rightarrow>
                  let cronDays = sort (map dayOfWeekToCron validated);
                      timeStr = formatTime12Hour (hour parsedTime) (minute parsedTime);
                      dayNames = map dayOfWeekToName validated
                  in Inr (createScheduleBuilder
                       \<lparr>type = Weekly,
                        cron = numToString (minute parsedTime) @ '' '' @
                               numToString (hour parsedTime) @ '' * * '' @
                               join '','' (map numToString cronDays),
                        timezone = None,
                        humanReadable = ''every '' @ listPhrase dayNames @ '' at '' @ timeStr,
                        originalParams =
                          [(''days'', PStrings dayArray), (''time'', PString time)]\<rparr>)))"

section \<open>Monthly schedules (schedule/monthly.ts)\<close>




section \<open>Raw cron expressions (schedule/cron.ts)\<close>

text \<open>
  White space as \<open>trim\<close> and the class \<open>\s\<close> see it. A character is a code unit below
  256, so of JavaScript's white space these remain: tab, line feed, vertical tab, form
  feed, carriage return, space and the no-break space.
\<close>

definition isSpace :: "char \<Rightarrow> bool" where
  "isSpace c = (c \<in> {CHR 0x09, CHR 0x0A, CHR 0x0B, CHR 0x0C, CHR 0x0D, CHR 0x20, CHR 0xA0})"

definition trim :: "string \<Rightarrow> string" where
  "trim s = rev (dropWhile isSpace (rev (dropWhile isSpace s)))"

text \<open>
  \<open>s.split(/\s+/)\<close>: the pieces between maximal runs of white space. A run at the start
  or at the end leaves an empty piece there, and the empty string splits into one empty
  piece.
\<close>

function splitWs :: "string \<Rightarrow> string list" where
  "splitWs s =
     (let tok = takeWhile (\<lambda>c. \<not> isSpace c) s;
          rest = dropWhile (\<lambda>c. \<not> isSpace c) s
      in if rest = [] then [tok] else tok # splitWs (dropWhile isSpace rest))"
  by pat_completeness auto
termination
proof (relation "measure length")
  show "wf (measure length)" by simp
next
  fix s tok rest :: string
  assume rest: "rest = dropWhile (\<lambda>c. \<not> isSpace c) s" and ne: "rest \<noteq> []"
  from ne rest have "isSpace (hd rest)"
    using hd_dropWhile [of "\<lambda>c. \<not> isSpace c" s] by simp
  with ne have "dropWhile isSpace rest = dropWhile isSpace (tl rest)"
    by (cases rest) simp_all
  then have "length (dropWhile isSpace rest) \<le> length (tl rest)"
    using length_dropWhile_le [of isSpace "tl rest"] by simp
  also have "\<dots> < length rest" using ne by simp
  also have "\<dots> \<le> length s"
    using rest length_dropWhile_le [of "\<lambda>c. \<not> isSpace c" s] by simp
  finally show "(dropWhile isSpace rest, s) \<in> measure length" by simp
qed

declare splitWs.simps [simp del]

text \<open>\<open>/^[\d*,/\-LW#]+$/.test(part)\<close>.\<close>

definition validPattern :: "string \<Rightarrow> bool" where
  "validPattern part = (part \<noteq> [] \<and> list_all (\<lambda>c. isDigit c \<or> c \<in> set ''*,/-LW#'') part)"

definition validateCronExpression :: "string \<Rightarrow> bool" where
  "validateCronExpression expression =
     (let parts = splitWs (trim expression)
      in if length parts \<noteq> 5 \<and> length parts \<noteq> 6 then False
         else list_all validPattern parts)"

text \<open>
  A number as \<open>parseInt\<close> returns it from an arbitrary string: an integer, or \<open>NaN\<close> when
  no digit follows the optional sign. Every comparison with \<open>NaN\<close> is false.
\<close>

datatype js_number = Num int | NaN

definition parseIntJS :: "string \<Rightarrow> js_number" where
  "parseIntJS str =
     (let s = dropWhile isSpace str;
          neg = (s \<noteq> [] \<and> hd s = CHR ''-'');
          body = (if s \<noteq> [] \<and> (hd s = CHR ''-'' \<or> hd s = CHR ''+'') then tl s else s);
          ds = takeWhile isDigit body
      in if ds = [] then NaN
         else Num (if neg then - int (parseInt ds) else int (parseInt ds)))"

fun numberToString :: "js_number \<Rightarrow> string" where
  "numberToString NaN = ''NaN''"
| "numberToString (Num i) = (if i < 0 then ''-'' else '''') @ numToString (nat \<bar>i\<bar>)"

fun numGe :: "js_number \<Rightarrow> int \<Rightarrow> bool" where
  "numGe NaN k = False"
| "numGe (Num i) k = (i \<ge> k)"

fun numGt :: "js_number \<Rightarrow> int \<Rightarrow> bool" where
  "numGt NaN k = False"
| "numGt (Num i) k = (i > k)"

fun numMinus :: "js_number \<Rightarrow> int \<Rightarrow> js_number" where
  "numMinus NaN k = NaN"
| "numMinus (Num i) k = Num (i - k)"

definition cronToHumanReadable :: "string \<Rightarrow> string" where
  "cronToHumanReadable expression =
     (let parts = splitWs (trim expression);
          fallback = ''cron: '' @ expression
      in if length parts = 5 then
           (let minute = parts ! 0; hour = parts ! 1; dayOfMonth = parts ! 2;
                month = parts ! 3; dayOfWeek = parts ! 4
            in if minute = ''*'' \<and> hour = ''*'' \<and> dayOfMonth = ''*'' \<and> month = ''*'' \<and>
                  dayOfWeek = ''*''
               then ''every minute''
               else if take 2 minute = ''*/'' \<and> hour = ''*'' \<and> dayOfMonth = ''*'' \<and>
                       month = ''*'' \<and> dayOfWeek = ''*''
               then ''every '' @ drop 2 minute @ '' minutes''
               else if minute = ''0'' \<and> hour = ''*'' \<and> dayOfMonth = ''*'' \<and> month = ''*'' \<and>
                       dayOfWeek = ''*''
               then ''every hour''
               else if minute = ''0'' \<and> take 2 hour = ''*/'' \<and> dayOfMonth = ''*'' \<and>
                       month = ''*'' \<and> dayOfWeek = ''*''
               then ''every '' @ drop 2 hour @ '' hours''
               else if dayOfMonth = ''*'' \<and> month = ''*'' \<and> dayOfWeek = ''*'' \<and>
                       minute \<noteq> [] \<and> hour \<noteq> [] \<and>
                       CHR ''*'' \<notin> set minute \<and> CHR ''*'' \<notin> set hour
               then (let h = parseIntJS hour; m = parseIntJS minute;
                         period = (if numGe h 12 then ''PM'' else ''AM'');
                         h12 = (if h = Num 0 then Num 12
                                else if numGt h 12 then numMinus h 12 else h)
                     in ''daily at '' @ numberToString h12 @ '':'' @
                        padStart 2 (CHR ''0'') (numberToString m) @ '' '' @ period)
               else fallback)
         else fallback)"

definition invalidCronExpression :: "string \<Rightarrow> js_error" where
  "invalidCronExpression expression =
     Error (''Invalid cron expression: \"'' @ expression @
            ''\". Expected 5 or 6 space-separated fields.'')"

text \<open>
  The builder \<open>cron(expression)\<close>; its name here is \<open>cron_expr\<close>, since \<open>cron\<close> is the
  field of the descriptor.
\<close>

definition cron_expr :: "string \<Rightarrow> js_error + ScheduleBuilder" where
  "cron_expr expression =
     (let trimmed = trim expression
      in if \<not> validateCronExpression trimmed then Inl (invalidCronExpression expression)
         else Inr (createScheduleBuilder
           \<lparr>type = Cron, cron = trimmed, timezone = None,
            humanReadable = cronToHumanReadable trimmed,
            originalParams = [(''expression'', PString trimmed)]\<rparr>))"

section \<open>Durations and retry delays (engine/timeout.ts, engine/retry.ts)\<close>

text \<open>
  \<open>duration.match(/^(\d+)(ms|s|m|h|d)$/)\<close>: the digits at the start, and what follows them
  must be one of the five units.
\<close>

definition matchDuration :: "string \<Rightarrow> (string \<times> string) option" where
  "matchDuration s =
     (let ds = takeWhile isDigit s; u = dropWhile isDigit s
      in if ds \<noteq> [] \<and> u \<in> set [''ms'', ''s'', ''m'', ''h'', ''d''] then Some (ds, u)
         else None)"

definition invalidDurationFormat :: "string \<Rightarrow> js_error" where
  "invalidDurationFormat d =
     Error (''Invalid duration format: \"'' @ d @
       ''\". Expected format: number + unit (ms/s/m/h/d). Examples: \"100ms\", \"30s\", \"5m\", \"1h\"'')"

definition parseDuration :: "string \<Rightarrow> js_error + int" where
  "parseDuration d =
     (case matchDuration d of
        None \<Rightarrow> Inl (invalidDurationFormat d)
      | Some (ds, unit) \<Rightarrow>
          let val = int (parseInt ds)
          in if unit = ''ms'' then Inr val
             else if unit = ''s'' then Inr (val * 1000)
             else if unit = ''m'' then Inr (val * 60 * 1000)
             else if unit = ''h'' then Inr (val * 60 * 60 * 1000)
             else if unit = ''d'' then Inr (val * 24 * 60 * 60 * 1000)
             else Inl (Error (''Unknown duration unit: '' @ unit)))"

datatype BackoffStrategy = Linear | Exponential

text \<open>
  \<open>attempts\<close> is a \<open>number\<close> in the source, and nothing there makes it whole: it is a
  real number here, which covers the finite values (not \<open>NaN\<close>, not the infinities). The
  attempt counter of a run starts at 1 and is incremented by 1, so it is an integer; it is
  compared with \<open>attempts\<close> as a number.
\<close>

record RetryConfig =
  attempts :: real
  backoff :: "BackoffStrategy option"
  initialDelay :: "string option"

text \<open>
  \<open>calculateRetryDelay\<close>. The tests \<open>config.initialDelay ? ... : ...\<close> and
  \<open>config.backoff || ...\<close> take an absent value, and the empty string, for false. The
  delay is a number: \<open>Math.pow(2, attempt - 1)\<close> is a fraction when the attempt is below 1.
\<close>

definition calculateRetryDelay :: "int \<Rightarrow> RetryConfig \<Rightarrow> js_error + real" where
  "calculateRetryDelay attempt cfg =
     (case (case initialDelay cfg of
              None \<Rightarrow> parseDuration ''1s''
            | Some d \<Rightarrow> if d = [] then parseDuration ''1s'' else parseDuration d) of
        Inl e \<Rightarrow> Inl e
      | Inr d0 \<Rightarrow>
          (case (case backoff cfg of None \<Rightarrow> Linear | Some b \<Rightarrow> b) of
             Linear \<Rightarrow> Inr (of_int d0 * of_int attempt)
           | Exponential \<Rightarrow> Inr (of_int d0 * 2 powi (attempt - 1))))"

text \<open>\<open>shouldRetry\<close>: \<open>config.attempts || 1\<close> replaces 0 by 1.\<close>

definition shouldRetry :: "int \<Rightarrow> RetryConfig \<Rightarrow> bool" where
  "shouldRetry attempt cfg =
     (let maxAttempts = (if attempts cfg \<noteq> 0 then attempts cfg else 1)
      in of_int attempt < maxAttempts)"

section \<open>Jobs (job/types.ts) and execution records (engine/types.ts)\<close>

text \<open>
  What a \<open>catch\<close> clause may receive: an \<open>Error\<close> object with its stack, or any other
  value, of which the engine uses only \<open>String(v)\<close>.
\<close>

datatype thrown = ErrorObject js_error "string option" | OtherValue string

text \<open>An \<open>AbortController\<close>; the one thing observed of it is \<open>signal.aborted\<close>.\<close>

record AbortController =
  aborted :: bool

record JobContext =
  ctx_jobId :: string
  ctx_jobName :: string
  ctx_runId :: string
  ctx_scheduledAt :: int
  ctx_startedAt :: int
  ctx_attempt :: int
  ctx_signal :: AbortController

text \<open>
  User code is modelled by what the engine can observe of it. For a handler that is the
  outcome of the race of \<open>Promise.resolve(handler(ctx))\<close> against the timer: the handler
  returned (or its promise was fulfilled), it threw (or its promise was rejected), or the
  timer fired first. A callback is awaited without a timer: it settles, fails, or its
  promise never settles. Synchronous user code is taken to return or throw.
\<close>

datatype handler_run = Returns | Throws thrown | OutlastsTimer

datatype callback_run = Settles | Fails thrown | NeverSettles

record JobConfig =
  cfg_name :: "string option"
  retry :: "RetryConfig option"
  timeout :: "string option"
  onFailure :: "(js_error \<Rightarrow> JobContext \<Rightarrow> callback_run) option"
  onSuccess :: "(JobContext \<Rightarrow> callback_run) option"

record JobDefinition =
  job_id :: string
  job_name :: string
  schedule :: ScheduleDescriptor
  config :: JobConfig
  handler :: "JobContext \<Rightarrow> handler_run"
  filePath :: "string option"

datatype ExecutionStatus = Success | Failure | Timeout | Retrying

record ExecutionError =
  message :: string
  stack :: "string option"

record ExecutionResult =
  res_jobId :: string
  res_runId :: string
  status :: ExecutionStatus
  res_startedAt :: int
  res_completedAt :: int
  duration :: int
  res_attempt :: int
  error :: "ExecutionError option"

datatype ExecutionEventType = JobStart | JobSuccess | JobFailure | JobRetry | JobTimeout

fun eventTypeName :: "ExecutionEventType \<Rightarrow> string" where
  "eventTypeName JobStart = ''job:start''"
| "eventTypeName JobSuccess = ''job:success''"
| "eventTypeName JobFailure = ''job:failure''"
| "eventTypeName JobRetry = ''job:retry''"
| "eventTypeName JobTimeout = ''job:timeout''"

record ExecutionEvent =
  ev_type :: ExecutionEventType
  ev_jobId :: string
  ev_runId :: string
  ev_timestamp :: int
  ev_attempt :: int
  ev_error :: "ExecutionError option"
  ev_duration :: "int option"

text \<open>
  A listener is a function of the event that returns or throws; \<open>lid\<close> is its identity,
  by which the \<open>Set\<close> of listeners tells functions apart.
\<close>

record listener =
  lid :: nat
  react :: "ExecutionEvent \<Rightarrow> thrown option"

section \<open>The execution engine (engine/executor.ts)\<close>

text \<open>
  The surroundings of a run. \<open>clock k\<close> is what the \<open>k\<close>-th reading of the clock returns,
  \<open>random k\<close> the nine characters \<open>generateRunId\<close> keeps of the \<open>k\<close>-th random number, and
  \<open>newErrorStack\<close> the stack the runtime gives an error object the engine constructs.
\<close>

record env =
  clock :: "nat \<Rightarrow> int"
  random :: "nat \<Rightarrow> string"
  newErrorStack :: "string option"

text \<open>
  The state a run acts on: the engine's listener table (\<open>Map<string, Set<listener>>\<close>,
  each set in insertion order; a key without an entry and a key with an empty set behave
  alike), the numbers of clock readings and random draws so far, and the record of what
  the run did: the events passed to \<open>emit\<close>, the listener calls, the contexts handed to
  the handler and the delays slept, each oldest first.
\<close>

record world =
  listeners :: "string \<Rightarrow> listener list"
  ticks :: nat
  draws :: nat
  emitted :: "ExecutionEvent list"
  notified :: "(nat \<times> ExecutionEvent) list"
  invocations :: "JobContext list"
  sleeps :: "real list"

definition now :: "env \<Rightarrow> world \<Rightarrow> int \<times> world" where
  "now e w = (clock e (ticks w), w\<lparr>ticks := Suc (ticks w)\<rparr>)"

definition draw :: "env \<Rightarrow> world \<Rightarrow> string \<times> world" where
  "draw e w = (random e (draws w), w\<lparr>draws := Suc (draws w)\<rparr>)"


definition unsubscribe :: "string \<Rightarrow> listener \<Rightarrow> world \<Rightarrow> world" where
  "unsubscribe event l w =
     w\<lparr>listeners := (listeners w)
        (event := filter (\<lambda>x. lid x \<noteq> lid l) (listeners w event))\<rparr>"

definition removeAllListeners :: "world \<Rightarrow> world" where
  "removeAllListeners w = w\<lparr>listeners := (\<lambda>event. [])\<rparr>"

text \<open>
  \<open>set.forEach((listener) => listener(event))\<close>: the listeners are called in order, and
  the first one that throws ends the loop with its exception.
\<close>

fun forEachListener :: "listener list \<Rightarrow> ExecutionEvent \<Rightarrow> world \<Rightarrow> thrown option \<times> world" where
  "forEachListener [] ev w = (None, w)"
| "forEachListener (l # ls) ev w =
     (let w' = w\<lparr>notified := notified w @ [(lid l, ev)]\<rparr>
      in case react l ev of
           Some t \<Rightarrow> (Some t, w')
         | None \<Rightarrow> forEachListener ls ev w')"

text \<open>\<open>emit\<close>: the listeners of the event's type, then the listeners of \<open>"*"\<close>.\<close>

definition emit :: "ExecutionEvent \<Rightarrow> world \<Rightarrow> thrown option \<times> world" where
  "emit ev w =
     (let w0 = w\<lparr>emitted := emitted w @ [ev]\<rparr>
      in case forEachListener (listeners w0 (eventTypeName (ev_type ev))) ev w0 of
           (Some t, w1) \<Rightarrow> (Some t, w1)
         | (None, w1) \<Rightarrow> forEachListener (listeners w1 ''*'') ev w1)"

definition DEFAULT_TIMEOUT_MS :: int where
  "DEFAULT_TIMEOUT_MS = 5 * 60 * 1000"

definition generateRunId :: "env \<Rightarrow> world \<Rightarrow> string \<times> world" where
  "generateRunId e w =
     (let (t, w1) = now e w; (r, w2) = draw e w1
      in (''run_'' @ numberToString (Num t) @ ''_'' @ r, w2))"

text \<open>
  The context of an attempt: \<open>scheduledAt\<close> and \<open>startedAt\<close> are two readings of the
  clock, and \<open>signal\<close> is the signal of the run's abort controller.
\<close>

definition attemptContext ::
  "env \<Rightarrow> JobDefinition \<Rightarrow> string \<Rightarrow> int \<Rightarrow> AbortController \<Rightarrow> world \<Rightarrow> JobContext" where
  "attemptContext e job runId attempt abortController w =
     \<lparr>ctx_jobId = job_id job, ctx_jobName = job_name job, ctx_runId = runId,
      ctx_scheduledAt = clock e (ticks w), ctx_startedAt = clock e (Suc (ticks w)),
      ctx_attempt = attempt, ctx_signal = abortController\<rparr>"

text \<open>
  \<open>job.config.timeout ? parseDuration(job.config.timeout) : DEFAULT_TIMEOUT_MS\<close>; an
  absent timeout and the empty string are false.
\<close>

definition timeoutOf :: "JobDefinition \<Rightarrow> js_error + int" where
  "timeoutOf job =
     (case timeout (config job) of
        None \<Rightarrow> Inr DEFAULT_TIMEOUT_MS
      | Some t \<Rightarrow> if t = [] then Inr DEFAULT_TIMEOUT_MS else parseDuration t)"

definition timedOut :: "env \<Rightarrow> int \<Rightarrow> thrown" where
  "timedOut e ms =
     ErrorObject
       (TimeoutError (''Execution timed out after '' @ numberToString (Num ms) @ ''ms''))
       (newErrorStack e)"

text \<open>
  \<open>executeAttempt\<close>. The context is built first; the timeout is read next, and a
  timeout string that does not parse throws before the handler is called. Then the
  handler is called with the context and raced against the timer. The abort controller
  is handed in and its signal is put into the context; it is returned as the function
  leaves it.
\<close>

definition executeAttempt ::
  "env \<Rightarrow> JobDefinition \<Rightarrow> string \<Rightarrow> int \<Rightarrow> AbortController \<Rightarrow> world \<Rightarrow>
   thrown option \<times> AbortController \<times> world" where
  "executeAttempt e job runId attempt abortController w =
     (let context = attemptContext e job runId attempt abortController w;
          w2 = w\<lparr>ticks := Suc (Suc (ticks w))\<rparr>
      in case timeoutOf job of
           Inl err \<Rightarrow> (Some (ErrorObject err (newErrorStack e)), abortController, w2)
         | Inr timeoutMs \<Rightarrow>
             (case handler job context of
                Returns \<Rightarrow> None
              | Throws t \<Rightarrow> Some t
              | OutlastsTimer \<Rightarrow> Some (timedOut e timeoutMs),
              abortController,
              w2\<lparr>invocations := invocations w2 @ [context]\<rparr>))"

text \<open>
  How the promise of an \<open>async\<close> function ends: it is resolved with the value returned,
  rejected with the exception thrown, or stays pending because an awaited promise never
  settles.
\<close>

datatype outcome = Resolved ExecutionResult | Rejected thrown | Pending

text \<open>\<open>err instanceof Error ? err : new Error(String(err))\<close>, as the error and its stack.\<close>

definition toError :: "env \<Rightarrow> thrown \<Rightarrow> js_error \<times> string option" where
  "toError e err =
     (case err of
        ErrorObject x st \<Rightarrow> (x, st)
      | OtherValue str \<Rightarrow> (Error str, newErrorStack e))"

text \<open>\<open>isTimeoutError(err)\<close> on the value caught.\<close>

definition caughtTimeout :: "thrown \<Rightarrow> bool" where
  "caughtTimeout err =
     (case err of ErrorObject x st \<Rightarrow> isTimeoutError x | OtherValue str \<Rightarrow> False)"

definition errorInfoOf :: "js_error \<times> string option \<Rightarrow> ExecutionError" where
  "errorInfoOf lastError = \<lparr>message = errorMessage (fst lastError), stack = snd lastError\<rparr>"

text \<open>The context the two callbacks receive.\<close>

definition callbackContext ::
  "JobDefinition \<Rightarrow> string \<Rightarrow> int \<Rightarrow> int \<Rightarrow> AbortController \<Rightarrow> JobContext" where
  "callbackContext job runId startedAt attempt abortController =
     \<lparr>ctx_jobId = job_id job, ctx_jobName = job_name job, ctx_runId = runId,
      ctx_scheduledAt = startedAt, ctx_startedAt = startedAt, ctx_attempt = attempt,
      ctx_signal = abortController\<rparr>"

text \<open>The object literals of \<open>run\<close>: its events and its results.\<close>

definition startEvent :: "JobDefinition \<Rightarrow> string \<Rightarrow> int \<Rightarrow> int \<Rightarrow> ExecutionEvent" where
  "startEvent job runId ts attempt =
     \<lparr>ev_type = JobStart, ev_jobId = job_id job, ev_runId = runId, ev_timestamp = ts,
      ev_attempt = attempt, ev_error = None, ev_duration = None\<rparr>"

definition successResult ::
  "JobDefinition \<Rightarrow> string \<Rightarrow> int \<Rightarrow> int \<Rightarrow> int \<Rightarrow> ExecutionResult" where
  "successResult job runId startedAt completedAt attempt =
     \<lparr>res_jobId = job_id job, res_runId = runId, status = Success,
      res_startedAt = startedAt, res_completedAt = completedAt,
      duration = completedAt - startedAt, res_attempt = attempt, error = None\<rparr>"

definition successEvent ::
  "JobDefinition \<Rightarrow> string \<Rightarrow> int \<Rightarrow> int \<Rightarrow> int \<Rightarrow> ExecutionEvent" where
  "successEvent job runId startedAt completedAt attempt =
     \<lparr>ev_type = JobSuccess, ev_jobId = job_id job, ev_runId = runId,
      ev_timestamp = completedAt, ev_attempt = attempt, ev_error = None,
      ev_duration = Some (completedAt - startedAt)\<rparr>"

definition retryEvent ::
  "JobDefinition \<Rightarrow> string \<Rightarrow> int \<Rightarrow> int \<Rightarrow> ExecutionError \<Rightarrow> ExecutionEvent" where
  "retryEvent job runId ts attempt errorInfo =
     \<lparr>ev_type = JobRetry, ev_jobId = job_id job, ev_runId = runId, ev_timestamp = ts,
      ev_attempt = attempt, ev_error = Some errorInfo, ev_duration = None\<rparr>"

definition failureResult ::
  "JobDefinition \<Rightarrow> string \<Rightarrow> int \<Rightarrow> int \<Rightarrow> int \<Rightarrow> bool \<Rightarrow> ExecutionError \<Rightarrow> ExecutionResult" where
  "failureResult job runId startedAt completedAt attempt isTimeout errorInfo =
     \<lparr>res_jobId = job_id job, res_runId = runId,
      status = (if isTimeout then Timeout else Failure),
      res_startedAt = startedAt, res_completedAt = completedAt,
      duration = completedAt - startedAt, res_attempt = attempt, error = Some errorInfo\<rparr>"

definition failureEvent ::
  "JobDefinition \<Rightarrow> string \<Rightarrow> int \<Rightarrow> int \<Rightarrow> int \<Rightarrow> bool \<Rightarrow> ExecutionError \<Rightarrow> ExecutionEvent" where
  "failureEvent job runId startedAt completedAt attempt isTimeout errorInfo =
     \<lparr>ev_type = (if isTimeout then JobTimeout else JobFailure),
      ev_jobId = job_id job, ev_runId = runId, ev_timestamp = completedAt,
      ev_attempt = attempt, ev_error = Some errorInfo,
      ev_duration = Some (completedAt - startedAt)\<rparr>"

text \<open>The result built after the loop.\<close>

definition fallbackResult ::
  "JobDefinition \<Rightarrow> string \<Rightarrow> int \<Rightarrow> int \<Rightarrow> int \<Rightarrow> (js_error \<times> string option) option \<Rightarrow>
   ExecutionResult" where
  "fallbackResult job runId startedAt completedAt attempt lastError =
     \<lparr>res_jobId = job_id job, res_runId = runId, status = Failure,
      res_startedAt = startedAt, res_completedAt = completedAt,
      duration = completedAt - startedAt, res_attempt = attempt,
      error = Some (case lastError of
                      Some le \<Rightarrow> errorInfoOf le
                    | None \<Rightarrow> \<lparr>message = ''Unknown error'', stack = None\<rparr>)\<rparr>"

text \<open>
  An awaited callback inside its own \<open>try\<close>: its exception is dropped, and the function
  goes on to return the result unless the callback's promise never settles.
\<close>

definition afterCallback :: "callback_run \<Rightarrow> ExecutionResult \<Rightarrow> outcome" where
  "afterCallback c result =
     (case c of NeverSettles \<Rightarrow> Pending | Settles \<Rightarrow> Resolved result
      | Fails t \<Rightarrow> Resolved result)"

text \<open>
  The \<open>try\<close> block of the loop body. \<open>Inl\<close> is an exception on its way to the \<open>catch\<close>
  clause: from the attempt, or from a listener of the success event, which is emitted
  inside the block.
\<close>

definition tryBlock ::
  "env \<Rightarrow> JobDefinition \<Rightarrow> string \<Rightarrow> int \<Rightarrow> int \<Rightarrow> AbortController \<Rightarrow> world \<Rightarrow>
   (thrown + outcome) \<times> AbortController \<times> world" where
  "tryBlock e job runId startedAt attempt abortController w =
     (case executeAttempt e job runId attempt abortController w of
        (Some t, ac, w1) \<Rightarrow> (Inl t, ac, w1)
      | (None, ac, w1) \<Rightarrow>
          (let (completedAt, w2) = now e w1;
               result = successResult job runId startedAt completedAt attempt
           in case emit (successEvent job runId startedAt completedAt attempt) w2 of
                (Some t, w3) \<Rightarrow> (Inl t, ac, w3)
              | (None, w3) \<Rightarrow>
                  (case onSuccess (config job) of
                     None \<Rightarrow> (Inr (Resolved result), ac, w3)
                   | Some cb \<Rightarrow>
                       (Inr (afterCallback
                          (cb (callbackContext job runId startedAt attempt ac)) result),
                        ac, w3))))"

text \<open>What one pass through the loop body does next: \<open>continue\<close>, or leave the function.\<close>

datatype step = Continue "js_error \<times> string option" | Exit outcome

text \<open>The end of the \<open>catch\<close> clause, when there is no retry left.\<close>

definition finalFailure ::
  "env \<Rightarrow> JobDefinition \<Rightarrow> string \<Rightarrow> int \<Rightarrow> int \<Rightarrow> js_error \<times> string option \<Rightarrow> bool \<Rightarrow>
   AbortController \<Rightarrow> world \<Rightarrow> step \<times> AbortController \<times> world" where
  "finalFailure e job runId startedAt attempt lastError isTimeout abortController w =
     (let errorInfo = errorInfoOf lastError;
          (completedAt, w1) = now e w;
          result = failureResult job runId startedAt completedAt attempt isTimeout errorInfo
      in case emit (failureEvent job runId startedAt completedAt attempt isTimeout errorInfo)
                w1 of
           (Some t, w2) \<Rightarrow> (Exit (Rejected t), abortController, w2)
         | (None, w2) \<Rightarrow>
             (case onFailure (config job) of
                None \<Rightarrow> (Exit (Resolved result), abortController, w2)
              | Some cb \<Rightarrow>
                  (Exit (afterCallback
                     (cb (fst lastError)
                        (callbackContext job runId startedAt attempt abortController))
                     result),
                   abortController, w2)))"

text \<open>
  The \<open>catch\<close> clause. An exception of a listener of the retry, failure or timeout event,
  or of \<open>calculateRetryDelay\<close>, is thrown inside the clause and leaves the function.
\<close>

definition catchBlock ::
  "env \<Rightarrow> JobDefinition \<Rightarrow> string \<Rightarrow> int \<Rightarrow> int \<Rightarrow> thrown \<Rightarrow> AbortController \<Rightarrow> world \<Rightarrow>
   step \<times> AbortController \<times> world" where
  "catchBlock e job runId startedAt attempt err abortController w =
     (let lastError = toError e err;
          isTimeout = caughtTimeout err;
          errorInfo = errorInfoOf lastError
      in case retry (config job) of
           None \<Rightarrow>
             finalFailure e job runId startedAt attempt lastError isTimeout abortController w
         | Some r \<Rightarrow>
             if shouldRetry attempt r then
               (let (ts, w1) = now e w
                in case emit (retryEvent job runId ts attempt errorInfo) w1 of
                     (Some t, w2) \<Rightarrow> (Exit (Rejected t), abortController, w2)
                   | (None, w2) \<Rightarrow>
                       (case calculateRetryDelay attempt r of
                          Inl x \<Rightarrow>
                            (Exit (Rejected (ErrorObject x (newErrorStack e))),
                             abortController, w2)
                        | Inr delay \<Rightarrow>
                            (Continue lastError, abortController,
                             w2\<lparr>sleeps := sleeps w2 @ [delay]\<rparr>)))
             else
               finalFailure e job runId startedAt attempt lastError isTimeout
                 abortController w)"

text \<open>The body of the \<open>while\<close> loop.\<close>

definition iteration ::
  "env \<Rightarrow> JobDefinition \<Rightarrow> string \<Rightarrow> int \<Rightarrow> int \<Rightarrow> AbortController \<Rightarrow> world \<Rightarrow>
   step \<times> AbortController \<times> world" where
  "iteration e job runId startedAt attempt abortController w =
     (case tryBlock e job runId startedAt attempt abortController w of
        (Inr out, ac, w1) \<Rightarrow> (Exit out, ac, w1)
      | (Inl err, ac, w1) \<Rightarrow> catchBlock e job runId startedAt attempt err ac w1)"

text \<open>
  The loop \<open>while (attempt <= maxAttempts)\<close>. It ends when the body leaves the function,
  or when its condition is false; then control falls through to the code after the loop,
  with the attempt counter and \<open>lastError\<close> as they are.
\<close>

datatype loop_end =
  Left outcome | Fallthrough int "(js_error \<times> string option) option"

function attemptLoop ::
  "env \<Rightarrow> JobDefinition \<Rightarrow> string \<Rightarrow> int \<Rightarrow> real \<Rightarrow> int \<Rightarrow> (js_error \<times> string option) option \<Rightarrow>
   AbortController \<Rightarrow> world \<Rightarrow> loop_end \<times> AbortController \<times> world" where
  "attemptLoop e job runId startedAt maxAttempts attempt lastError abortController w =
     (if of_int attempt \<le> maxAttempts then
        (case iteration e job runId startedAt attempt abortController w of
           (Continue err, ac, w1) \<Rightarrow>
             attemptLoop e job runId startedAt maxAttempts (attempt + 1) (Some err) ac w1
         | (Exit out, ac, w1) \<Rightarrow> (Left out, ac, w1))
      else (Fallthrough attempt lastError, abortController, w))"
  by pat_completeness auto
termination
  by (relation "measure (\<lambda>(e, job, runId, startedAt, maxAttempts, attempt, rest).
        nat (\<lfloor>maxAttempts\<rfloor> + 1 - attempt))") (auto simp: le_floor_iff)

declare attemptLoop.simps [simp del]

text \<open>\<open>maxAttempts\<close> as \<open>run\<close> computes it: \<open>job.config.retry?.attempts ?? 1\<close>.\<close>

definition maxAttemptsOf :: "JobDefinition \<Rightarrow> real" where
  "maxAttemptsOf job = (case retry (config job) of None \<Rightarrow> 1 | Some r \<Rightarrow> attempts r)"

text \<open>
  \<open>run(job)\<close>. Besides the promise's outcome the model returns the run's abort controller
  as the run leaves it.
\<close>

definition run ::
  "env \<Rightarrow> JobDefinition \<Rightarrow> world \<Rightarrow> outcome \<times> AbortController \<times> world" where
  "run e job w =
     (let (runId, w1) = generateRunId e w;
          (startedAt, w2) = now e w1;
          attempt = 1;
          abortController = \<lparr>aborted = False\<rparr>;
          (ts, w3) = now e w2
      in case emit (startEvent job runId ts attempt) w3 of
           (Some t, w4) \<Rightarrow> (Rejected t, abortController, w4)
         | (None, w4) \<Rightarrow>
             (let maxAttempts = maxAttemptsOf job
              in case attemptLoop e job runId startedAt maxAttempts attempt None
                        abortController w4 of
                   (Left out, ac, w5) \<Rightarrow> (out, ac, w5)
                 | (Fallthrough attempt' lastError, ac, w5) \<Rightarrow>
                     (let (completedAt, w6) = now e w5
                      in (Resolved
                            (fallbackResult job runId startedAt completedAt attempt'
                               lastError),
                          ac, w6))))"

section \<open>Executing a job from the scheduler and from the worker\<close>

text \<open>
  \<open>CronScheduler\<close> (cronlet-cli, scheduler/index.ts, the variant with graceful shutdown)
  and \<open>CronletWorker\<close> (worker/worker.ts) both run jobs on the engine singleton and keep a
  table of runs in flight. The cron triggers of the third-party library are left out.
\<close>

record InFlightJob =
  if_jobId :: string
  if_runId :: string
  if_startedAt :: int
  promise :: outcome

record CronScheduler =
  scheduledJobs :: "string \<rightharpoonup> JobDefinition"
  inFlightJobs :: "string \<rightharpoonup> InFlightJob"
  running :: bool
  shuttingDown :: bool

record CronletWorker =
  wk_jobs :: "JobDefinition list"
  wk_inFlight :: "string \<rightharpoonup> outcome"
  wk_running :: bool
  wk_shuttingDown :: bool

text \<open>
  The result both return while shutting down; they differ in the message. The object
  literal reads the clock three times.
\<close>

definition skippedResult ::
  "string \<Rightarrow> env \<Rightarrow> JobDefinition \<Rightarrow> world \<Rightarrow> ExecutionResult \<times> world" where
  "skippedResult msg e job w =
     (let (t, w1) = now e w;
          (startedAt, w2) = now e w1;
          (completedAt, w3) = now e w2
      in (\<lparr>res_jobId = job_id job, res_runId = ''skipped_'' @ numberToString (Num t),
           status = Failure, res_startedAt = startedAt, res_completedAt = completedAt,
           duration = 0, res_attempt = 0,
           error = Some \<lparr>message = msg, stack = None\<rparr>\<rparr>, w3))"

text \<open>
  \<open>executeJob\<close> is an \<open>async\<close> function that awaits the run. It is modelled in two steps,
  between which other code may act on the table. The first step goes up to the \<open>await\<close>:
  it ends with the promise already resolved (\<open>Skipped\<close>), or with a handle in the table
  under a key (\<open>Awaiting\<close>). The run's outcome is kept in the handle. The second step is
  the \<open>finally\<close> clause and the return, which happen when the run's promise settles; a
  pending promise never gets there.
\<close>

datatype started = Skipped ExecutionResult | Awaiting string

definition scheduler_executeJob_start ::
  "env \<Rightarrow> JobDefinition \<Rightarrow> CronScheduler \<Rightarrow> world \<Rightarrow> started \<times> CronScheduler \<times> world" where
  "scheduler_executeJob_start e job s w =
     (if shuttingDown s then
        (let (r, w1) = skippedResult ''Scheduler is shutting down'' e job w
         in (Skipped r, s, w1))
      else
        (let (runId, w1) = generateRunId e w;
             (startedAt, w2) = now e w1;
             (out, ac, w3) = run e job w2;
             inFlight = \<lparr>if_jobId = job_id job, if_runId = runId, if_startedAt = startedAt,
                         promise = out\<rparr>
         in (Awaiting runId, s\<lparr>inFlightJobs := (inFlightJobs s)(runId \<mapsto> inFlight)\<rparr>, w3)))"

definition scheduler_executeJob_settle ::
  "string \<Rightarrow> CronScheduler \<Rightarrow> outcome \<times> CronScheduler" where
  "scheduler_executeJob_settle runId s =
     (case inFlightJobs s runId of
        None \<Rightarrow> (Pending, s)
      | Some h \<Rightarrow>
          (case promise h of
             Pending \<Rightarrow> (Pending, s)
           | Resolved r \<Rightarrow> (Resolved r, s\<lparr>inFlightJobs := (inFlightJobs s)(runId := None)\<rparr>)
           | Rejected t \<Rightarrow> (Rejected t, s\<lparr>inFlightJobs := (inFlightJobs s)(runId := None)\<rparr>)))"

text \<open>The whole call, when nothing else acts in between.\<close>

definition scheduler_executeJob ::
  "env \<Rightarrow> JobDefinition \<Rightarrow> CronScheduler \<Rightarrow> world \<Rightarrow> outcome \<times> CronScheduler \<times> world" where
  "scheduler_executeJob e job s w =
     (case scheduler_executeJob_start e job s w of
        (Skipped r, s1, w1) \<Rightarrow> (Resolved r, s1, w1)
      | (Awaiting runId, s1, w1) \<Rightarrow>
          (let (out, s2) = scheduler_executeJob_settle runId s1 in (out, s2, w1)))"

text \<open>
  The worker calls the engine first and then makes its key from the job id and the clock.
  \<open>engine.run(job)\<close> runs until \<open>run\<close> first awaits or returns, and the key's reading of
  the clock comes next, before the later readings of the run. \<open>syncReadings\<close> counts the
  readings \<open>run\<close> makes up to there: the run id, \<open>startedAt\<close> and the start event's
  timestamp; then, when no listener of the start event throws, either the two dates of
  the first attempt's context, after which \<open>run\<close> awaits the attempt, or, when the loop is
  not entered, \<open>completedAt\<close> of the result after the loop.
\<close>

definition syncReadings :: "env \<Rightarrow> JobDefinition \<Rightarrow> world \<Rightarrow> nat" where
  "syncReadings e job w =
     (let (runId, w1) = generateRunId e w;
          (startedAt, w2) = now e w1;
          (ts, w3) = now e w2
      in case emit (startEvent job runId ts 1) w3 of
           (Some t, w4) \<Rightarrow> 3
         | (None, w4) \<Rightarrow> if of_int 1 \<le> maxAttemptsOf job then 5 else 4)"

text \<open>
  The clock as a run reads it when someone else takes the reading number \<open>k\<close>: the run's
  readings from \<open>k\<close> on are the ones that follow.
\<close>

definition interleaved :: "nat \<Rightarrow> env \<Rightarrow> env" where
  "interleaved k e = e\<lparr>clock := (\<lambda>i. if i < k then clock e i else clock e (Suc i))\<rparr>"

definition worker_executeJob_start ::
  "env \<Rightarrow> JobDefinition \<Rightarrow> CronletWorker \<Rightarrow> world \<Rightarrow> started \<times> CronletWorker \<times> world" where
  "worker_executeJob_start e job s w =
     (if wk_shuttingDown s then
        (let (r, w1) = skippedResult ''Worker is shutting down'' e job w
         in (Skipped r, s, w1))
      else
        (let k = ticks w + syncReadings e job w;
             (out, ac, w1) = run (interleaved k e) job w;
             key = job_id job @ ''_'' @ numberToString (Num (clock e k))
         in (Awaiting key, s\<lparr>wk_inFlight := (wk_inFlight s)(key \<mapsto> out)\<rparr>,
             w1\<lparr>ticks := Suc (ticks w1)\<rparr>)))"

definition worker_executeJob_settle ::
  "string \<Rightarrow> CronletWorker \<Rightarrow> outcome \<times> CronletWorker" where
  "worker_executeJob_settle key s =
     (case wk_inFlight s key of
        None \<Rightarrow> (Pending, s)
      | Some Pending \<Rightarrow> (Pending, s)
      | Some (Resolved r) \<Rightarrow> (Resolved r, s\<lparr>wk_inFlight := (wk_inFlight s)(key := None)\<rparr>)
      | Some (Rejected t) \<Rightarrow> (Rejected t, s\<lparr>wk_inFlight := (wk_inFlight s)(key := None)\<rparr>))"

definition worker_executeJob ::
  "env \<Rightarrow> JobDefinition \<Rightarrow> CronletWorker \<Rightarrow> world \<Rightarrow> outcome \<times> CronletWorker \<times> world" where
  "worker_executeJob e job s w =
     (case worker_executeJob_start e job s w of
        (Skipped r, s1, w1) \<Rightarrow> (Resolved r, s1, w1)
      | (Awaiting key, s1, w1) \<Rightarrow>
          (let (out, s2) = worker_executeJob_settle key s1 in (out, s2, w1)))"

section \<open>Conditions on the surroundings of a run\<close>

text \<open>No subscribed listener throws, whatever the event.\<close>

definition quiet :: "world \<Rightarrow> bool" where
  "quiet w = (\<forall>k. \<forall>l\<in>set (listeners w k). \<forall>ev. react l ev = None)"








section \<open>Concrete jobs and surroundings\<close>

text \<open>
  The mock job of the engine's tests (\<open>createMockJob\<close> in executor.test.ts), a clock that
  advances by one millisecond per reading, and an engine without listeners.
\<close>

definition createMockJob :: "(JobContext \<Rightarrow> handler_run) \<Rightarrow> JobConfig \<Rightarrow> JobDefinition" where
  "createMockJob h cfg =
     \<lparr>job_id = ''test-job'', job_name = ''Test Job'',
      schedule = \<lparr>type = Interval, cron = ''*/15 * * * *'', timezone = None,
                  humanReadable = ''every 15 minutes'', originalParams = []\<rparr>,
      config = cfg, handler = h, filePath = None\<rparr>"

definition emptyConfig :: JobConfig where
  "emptyConfig = \<lparr>cfg_name = None, retry = None, timeout = None, onFailure = None,
                  onSuccess = None\<rparr>"

definition testEnv :: env where
  "testEnv = \<lparr>clock = (\<lambda>k. 1000 + int k), random = (\<lambda>k. ''k3x9q0zt1''),
              newErrorStack = None\<rparr>"

definition freshEngine :: world where
  "freshEngine = \<lparr>listeners = (\<lambda>event. []), ticks = 0, draws = 0, emitted = [],
                  notified = [], invocations = [], sleeps = []\<rparr>"

definition idleScheduler :: CronScheduler where
  "idleScheduler = \<lparr>scheduledJobs = Map.empty, inFlightJobs = Map.empty, running = True,
                    shuttingDown = False\<rparr>"

definition idleWorker :: CronletWorker where
  "idleWorker = \<lparr>wk_jobs = [], wk_inFlight = Map.empty, wk_running = True,
                 wk_shuttingDown = False\<rparr>"



section \<open>Properties of the schedule compiler\<close>

subsection \<open>Interval lowering\<close>

lemma div_qr: "r < b \<Longrightarrow> (q * b + r) div b = (q::nat)"
  by simp

lemma ceilDiv_ceiling: "0 < b \<Longrightarrow> int (ceilDiv a b) = \<lceil>real a / real b\<rceil>"
proof -
  assume b: "0 < b"
  define q where "q = a div b"
  define r where "r = a mod b"
  have qr: "a = q * b + r" "r < b"
    using b by (simp_all add: q_def r_def)
  show ?thesis
  proof (cases "r = 0")
    case True
    have "a + b - 1 = q * b + (b - 1)" using qr True b by simp
    moreover have "b - 1 < b" using b by simp
    ultimately have "ceilDiv a b = q"
      unfolding ceilDiv_def using div_qr by presburger
    moreover have "real a / real b = real q" using qr True b by simp
    ultimately show ?thesis by simp
  next
    case False
    then have "a + b - 1 = (q + 1) * b + (r - 1)" using qr by (simp add: algebra_simps)
    moreover have "r - 1 < b" using qr by simp
    ultimately have "ceilDiv a b = q + 1"
      unfolding ceilDiv_def using div_qr by presburger
    moreover have "\<lceil>real a / real b\<rceil> = int q + 1"
    proof (rule ceiling_unique)
      have "real a = real q * real b + real r" using qr by (metis of_nat_add of_nat_mult)
      then have "real a / real b = real q + real r / real b" using b by (simp add: field_simps)
      moreover have "0 < real r / real b" "real r / real b < 1" using qr False b by simp_all
      ultimately show "of_int (int q + 1) - 1 < real a / real b"
          "real a / real b \<le> of_int (int q + 1)"
        by simp_all
    qed
    ultimately show ?thesis by simp
  qed
qed

lemma nat_ceiling_ceilDiv: "0 < b \<Longrightarrow> nat \<lceil>real a / real b\<rceil> = ceilDiv a b"
  using ceilDiv_ceiling [of b a] by (metis nat_int)

lemma matchInterval_append:
  "ds \<noteq> [] \<Longrightarrow> list_all isDigit ds \<Longrightarrow> u \<in> set ''smhdw'' \<Longrightarrow>
   matchInterval (ds @ [u]) = Some (ds, u)"
  by (simp add: matchInterval_def)

lemma matchInterval_Some:
  assumes "matchInterval s = Some (ds, u)"
  shows "s = ds @ [u] \<and> ds \<noteq> [] \<and> list_all isDigit ds \<and> u \<in> set ''smhdw''"
proof -
  from assms have ne: "s \<noteq> []"
    by (auto simp: matchInterval_def split: if_splits)
  with assms have *: "ds = butlast s" "u = last s" "ds \<noteq> []" "list_all isDigit ds"
      "u \<in> set ''smhdw''"
    by (simp_all add: matchInterval_def Let_def split: if_splits)
  from ne have "s = butlast s @ [last s]" by simp
  with * show ?thesis by simp
qed

lemma parseInterval_Inr:
  "parseInterval s = Inr (n, u) \<Longrightarrow>
   \<exists>ds. s = ds @ [u] \<and> ds \<noteq> [] \<and> list_all isDigit ds \<and> u \<in> set ''smhdw'' \<and>
        n = parseInt ds \<and> 0 < n"
  unfolding parseInterval_def
  by (auto simp: Let_def split: option.splits if_splits dest!: matchInterval_Some)

lemma parseInterval_accepts:
  "ds \<noteq> [] \<Longrightarrow> list_all isDigit ds \<Longrightarrow> u \<in> set ''smhdw'' \<Longrightarrow> 0 < parseInt ds \<Longrightarrow>
   parseInterval (ds @ [u]) = Inr (parseInt ds, u)"
  by (simp add: parseInterval_def matchInterval_append del: set_simps)

lemma unitNames_total: "u \<in> set ''smhdw'' \<Longrightarrow> \<exists>p. unitNames u = Some p"
  by (auto simp: unitNames_def)

lemma cron_s_lt: "n < 60 \<Longrightarrow> intervalToCron n (CHR ''s'') = Inr (''*/'' @ numToString n @ '' * * * * *'')"
  by (subst intervalToCron.simps) simp
lemma cron_s_ge: "60 \<le> n \<Longrightarrow> intervalToCron n (CHR ''s'') = intervalToCron (ceilDiv n 60) (CHR ''m'')"
  by (subst intervalToCron.simps) simp
lemma cron_m_lt: "n < 60 \<Longrightarrow> intervalToCron n (CHR ''m'') = Inr (''*/'' @ numToString n @ '' * * * *'')"
  by (subst intervalToCron.simps) simp
lemma cron_m_ge: "60 \<le> n \<Longrightarrow> intervalToCron n (CHR ''m'') = intervalToCron (ceilDiv n 60) (CHR ''h'')"
  by (subst intervalToCron.simps) simp
lemma cron_h_lt: "n < 24 \<Longrightarrow> intervalToCron n (CHR ''h'') = Inr (''0 */'' @ numToString n @ '' * * *'')"
  by (subst intervalToCron.simps) simp
lemma cron_h_ge: "24 \<le> n \<Longrightarrow> intervalToCron n (CHR ''h'') = intervalToCron (ceilDiv n 24) (CHR ''d'')"
  by (subst intervalToCron.simps) simp
lemma cron_d_1: "intervalToCron 1 (CHR ''d'') = Inr ''0 0 * * *''"
  by (subst intervalToCron.simps) simp
lemma cron_d_gt: "n \<noteq> 1 \<Longrightarrow> intervalToCron n (CHR ''d'') = Inr (''0 0 */'' @ numToString n @ '' * *'')"
  by (subst intervalToCron.simps) simp
lemma cron_w_1: "intervalToCron 1 (CHR ''w'') = Inr ''0 0 * * 0''"
  by (subst intervalToCron.simps) simp
lemma cron_w_gt: "n \<noteq> 1 \<Longrightarrow> intervalToCron n (CHR ''w'') = intervalToCron (n * 7) (CHR ''d'')"
  by (subst intervalToCron.simps) simp

lemma cron_d_total: "\<exists>c. intervalToCron n (CHR ''d'') = Inr c"
  using cron_d_1 cron_d_gt [of n] by (cases "n = 1") auto
lemma cron_w_total: "\<exists>c. intervalToCron n (CHR ''w'') = Inr c"
  using cron_w_1 cron_w_gt [of n] cron_d_total [of "n * 7"] by (cases "n = 1") auto
lemma cron_h_total: "\<exists>c. intervalToCron n (CHR ''h'') = Inr c"
  by (cases "n < 24") (simp_all add: cron_h_lt cron_h_ge cron_d_total)
lemma cron_m_total: "\<exists>c. intervalToCron n (CHR ''m'') = Inr c"
  by (cases "n < 60") (simp_all add: cron_m_lt cron_m_ge cron_h_total)
lemma cron_s_total: "\<exists>c. intervalToCron n (CHR ''s'') = Inr c"
  by (cases "n < 60") (simp_all add: cron_s_lt cron_s_ge cron_m_total)

lemma intervalToCron_total:
  "u \<in> set ''smhdw'' \<Longrightarrow> \<exists>c. intervalToCron n u = Inr c"
  using cron_s_total cron_m_total cron_h_total cron_d_total cron_w_total by auto

lemma every_accepts:
  assumes "ds \<noteq> []" "list_all isDigit ds" "u \<in> set ''smhdw''" "0 < parseInt ds"
  shows "\<exists>b c. every (ds @ [u]) = Inr b \<and> type b = Interval \<and>
           intervalToCron (parseInt ds) u = Inr c \<and> cron b = c"
proof -
  obtain c where c: "intervalToCron (parseInt ds) u = Inr c"
    using intervalToCron_total [OF assms(3)] by blast
  obtain p q where p: "unitNames u = Some (p, q)"
    using unitNames_total [OF assms(3)] by fastforce
  show ?thesis
    by (simp add: every_def parseInterval_accepts [OF assms] c p
        intervalToHumanReadable_def createScheduleBuilder_def Let_def del: set_simps)
qed

lemma every_Inr:
  assumes "every s = Inr b"
  shows "\<exists>ds u. s = ds @ [u] \<and> ds \<noteq> [] \<and> list_all isDigit ds \<and> u \<in> set ''smhdw'' \<and>
           0 < parseInt ds"
proof -
  from assms obtain n u where "parseInterval s = Inr (n, u)"
    by (auto simp: every_def split: sum.splits)
  from parseInterval_Inr [OF this] show ?thesis by blast
qed

lemma every_15m:
  "every ''15m'' = Inr (createScheduleBuilder
     \<lparr>type = Interval, cron = ''*/15 * * * *'', timezone = None,
      humanReadable = ''every 15 minutes'',
      originalParams = [(''interval'', PString ''15m'')]\<rparr>)"
  by code_simp

text \<open>
  Claim C5. Every interval string that \<open>every\<close> accepts is one or more digits followed by
  one of the unit letters s, m, h, d, w, with a positive value, and every such string is
  accepted; the cron of the result is \<open>intervalToCron\<close> of the value and the unit, which
  follows the lowering table row by row: seconds and minutes below 60 and hours below 24
  give the step expression, larger values recurse with the rounded-up quotient in the next
  unit, one day and one week have their fixed expressions, several days give a
  day-of-month step, several weeks recurse as seven times as many days. \<open>every("15m")\<close>
  has cron \<open>*/15 * * * *\<close>, the text "every 15 minutes" and type interval.
\<close>

theorem every_lowering_table:
  "(\<forall>ds u. ds \<noteq> [] \<and> list_all isDigit ds \<and> u \<in> set ''smhdw'' \<and> 0 < parseInt ds \<longrightarrow>
      (\<exists>b c. every (ds @ [u]) = Inr b \<and> type b = Interval \<and>
         intervalToCron (parseInt ds) u = Inr c \<and> cron b = c)) \<and>
   (\<forall>s b. every s = Inr b \<longrightarrow>
      (\<exists>ds u. s = ds @ [u] \<and> ds \<noteq> [] \<and> list_all isDigit ds \<and> u \<in> set ''smhdw'' \<and>
         0 < parseInt ds)) \<and>
   (\<forall>n. n < 60 \<longrightarrow>
      intervalToCron n (CHR ''s'') = Inr (''*/'' @ numToString n @ '' * * * * *'')) \<and>
   (\<forall>n. 60 \<le> n \<longrightarrow>
      intervalToCron n (CHR ''s'') = intervalToCron (nat \<lceil>real n / 60\<rceil>) (CHR ''m'')) \<and>
   (\<forall>n. n < 60 \<longrightarrow>
      intervalToCron n (CHR ''m'') = Inr (''*/'' @ numToString n @ '' * * * *'')) \<and>
   (\<forall>n. 60 \<le> n \<longrightarrow>
      intervalToCron n (CHR ''m'') = intervalToCron (nat \<lceil>real n / 60\<rceil>) (CHR ''h'')) \<and>
   (\<forall>n. n < 24 \<longrightarrow>
      intervalToCron n (CHR ''h'') = Inr (''0 */'' @ numToString n @ '' * * *'')) \<and>
   (\<forall>n. 24 \<le> n \<longrightarrow>
      intervalToCron n (CHR ''h'') = intervalToCron (nat \<lceil>real n / 24\<rceil>) (CHR ''d'')) \<and>
   intervalToCron 1 (CHR ''d'') = Inr ''0 0 * * *'' \<and>
   (\<forall>n. 1 < n \<longrightarrow>
      intervalToCron n (CHR ''d'') = Inr (''0 0 */'' @ numToString n @ '' * *'')) \<and>
   intervalToCron 1 (CHR ''w'') = Inr ''0 0 * * 0'' \<and>
   (\<forall>n. 1 < n \<longrightarrow> intervalToCron n (CHR ''w'') = intervalToCron (n * 7) (CHR ''d'')) \<and>
   (\<exists>b. every ''15m'' = Inr b \<and> cron b = ''*/15 * * * *'' \<and>
      humanReadable b = ''every 15 minutes'' \<and> type b = Interval)"
proof -
  have ex: "\<exists>b. every ''15m'' = Inr b \<and> cron b = ''*/15 * * * *'' \<and>
      humanReadable b = ''every 15 minutes'' \<and> type b = Interval"
    by (simp add: every_15m createScheduleBuilder_def)
  have c60: "\<And>n. nat \<lceil>real n / 60\<rceil> = ceilDiv n 60"
    using nat_ceiling_ceilDiv [of 60] by simp
  have c24: "\<And>n. nat \<lceil>real n / 24\<rceil> = ceilDiv n 24"
    using nat_ceiling_ceilDiv [of 24] by simp
  have acc: "\<forall>ds u. ds \<noteq> [] \<and> list_all isDigit ds \<and> u \<in> set ''smhdw'' \<and> 0 < parseInt ds \<longrightarrow>
      (\<exists>b c. every (ds @ [u]) = Inr b \<and> type b = Interval \<and>
         intervalToCron (parseInt ds) u = Inr c \<and> cron b = c)"
    using every_accepts by blast
  have rej: "\<forall>s b. every s = Inr b \<longrightarrow>
      (\<exists>ds u. s = ds @ [u] \<and> ds \<noteq> [] \<and> list_all isDigit ds \<and> u \<in> set ''smhdw'' \<and>
         0 < parseInt ds)"
    using every_Inr by blast
  have r1: "\<forall>n. n < 60 \<longrightarrow>
      intervalToCron n (CHR ''s'') = Inr (''*/'' @ numToString n @ '' * * * * *'')"
    by (simp add: cron_s_lt)
  have r2: "\<forall>n. 60 \<le> n \<longrightarrow>
      intervalToCron n (CHR ''s'') = intervalToCron (nat \<lceil>real n / 60\<rceil>) (CHR ''m'')"
    by (simp only: c60) (simp add: cron_s_ge)
  have r3: "\<forall>n. n < 60 \<longrightarrow>
      intervalToCron n (CHR ''m'') = Inr (''*/'' @ numToString n @ '' * * * *'')"
    by (simp add: cron_m_lt)
  have r4: "\<forall>n. 60 \<le> n \<longrightarrow>
      intervalToCron n (CHR ''m'') = intervalToCron (nat \<lceil>real n / 60\<rceil>) (CHR ''h'')"
    by (simp only: c60) (simp add: cron_m_ge)
  have r5: "\<forall>n. n < 24 \<longrightarrow>
      intervalToCron n (CHR ''h'') = Inr (''0 */'' @ numToString n @ '' * * *'')"
    by (simp add: cron_h_lt)
  have r6: "\<forall>n. 24 \<le> n \<longrightarrow>
      intervalToCron n (CHR ''h'') = intervalToCron (nat \<lceil>real n / 24\<rceil>) (CHR ''d'')"
    by (simp only: c24) (simp add: cron_h_ge)
  have r7: "\<forall>n. 1 < n \<longrightarrow>
      intervalToCron n (CHR ''d'') = Inr (''0 0 */'' @ numToString n @ '' * *'')"
    by (simp add: cron_d_gt)
  have r8: "\<forall>n. 1 < n \<longrightarrow> intervalToCron n (CHR ''w'') = intervalToCron (n * 7) (CHR ''d'')"
    by (simp add: cron_w_gt)
  show ?thesis
    by (intro conjI; (rule acc rej r1 r2 r3 r4 r5 r6 r7 r8 cron_d_1 cron_w_1 ex))
qed

theorem every_lowering_table_witness:
  "''90'' \<noteq> [] \<and> list_all isDigit ''90'' \<and> CHR ''s'' \<in> set ''smhdw'' \<and> 0 < parseInt ''90'' \<and>
   (60::nat) \<le> 90 \<and> (2::nat) < 60 \<and>
   (\<exists>b. every ''90s'' = Inr b \<and> type b = Interval \<and> cron b = ''*/2 * * * *'')"
proof -
  have h: "''90'' \<noteq> [] \<and> list_all isDigit ''90'' \<and> CHR ''s'' \<in> set ''smhdw'' \<and> 0 < parseInt ''90''"
    by (simp add: isDigit_def parseInt_def digitVal_def)
  have p: "parseInt ''90'' = 90"
    by (simp add: parseInt_def digitVal_def)
  have c: "nat \<lceil>real 90 / 60\<rceil> = 2"
    by simp
  have n: "numToString 2 = ''2''"
    by (simp add: numToString.simps digitChar_def)
  from every_lowering_table h obtain b k where
    b: "every (''90'' @ ''s'') = Inr b" "type b = Interval"
      "intervalToCron (parseInt ''90'') (CHR ''s'') = Inr k" "cron b = k"
    by blast
  from every_lowering_table have
    "intervalToCron 90 (CHR ''s'') = intervalToCron (nat \<lceil>real 90 / 60\<rceil>) (CHR ''m'')"
    by simp
  moreover from every_lowering_table have
    "intervalToCron 2 (CHR ''m'') = Inr (''*/'' @ numToString 2 @ '' * * * *'')"
    by simp
  ultimately have "k = ''*/2 * * * *''"
    using b(3) p c n by simp
  with b h show ?thesis by simp
qed

subsection \<open>The time parser\<close>



















subsection \<open>Weekly schedules\<close>

lemma dayToken_valid: "d \<in> set validDays \<Longrightarrow> \<exists>x. dayToken d = Some x"
  by (auto simp: validDays_def dayToken_def)

lemma dayToken_Some: "dayToken d = Some x \<Longrightarrow> d \<in> set validDays"
  by (auto simp: validDays_def dayToken_def split: if_splits)

lemma validateDays_valid:
  "set ds \<subseteq> set validDays \<Longrightarrow> \<exists>v. validateDays ds = Inr v \<and> map dayToken ds = map Some v"
proof (induction ds)
  case Nil
  then show ?case by simp
next
  case (Cons d ds)
  then obtain v where v: "validateDays ds = Inr v" "map dayToken ds = map Some v"
    by auto
  from Cons.prems obtain x where "dayToken d = Some x"
    using dayToken_valid [of d] by auto
  with v show ?case by simp
qed

lemma validateDays_Inr:
  "validateDays ds = Inr v \<Longrightarrow> set ds \<subseteq> set validDays \<and> map dayToken ds = map Some v"
proof (induction ds arbitrary: v)
  case Nil
  then show ?case by simp
next
  case (Cons d ds)
  then show ?case
    by (auto split: option.splits sum.splits dest: dayToken_Some)
qed

lemma weekly_ok:
  assumes "ds \<noteq> []" "validateDays ds = Inr v" "parseTime t = Some p"
  shows "weekly (ManyDays ds) t = Inr (createScheduleBuilder
           \<lparr>type = Weekly,
            cron = numToString (minute p) @ '' '' @ numToString (hour p) @ '' * * '' @
                   join '','' (map numToString (sort (map dayOfWeekToCron v))),
            timezone = None,
            humanReadable = ''every '' @ listPhrase (map dayOfWeekToName v) @ '' at '' @
                            formatTime12Hour (hour p) (minute p),
            originalParams = [(''days'', PStrings ds), (''time'', PString t)]\<rparr>)"
  using assms by (simp add: weekly_def Let_def)

lemma weekly_OneDay: "weekly (OneDay d) t = weekly (ManyDays [d]) t"
  by (simp add: weekly_def)

lemma weekly_fri_mon_wed:
  "weekly (ManyDays [''fri'', ''mon'', ''wed'']) ''09:00'' = Inr (createScheduleBuilder
     \<lparr>type = Weekly, cron = ''0 9 * * 1,3,5'', timezone = None,
      humanReadable = ''every Friday, Monday, and Wednesday at 9:00 AM'',
      originalParams = [(''days'', PStrings [''fri'', ''mon'', ''wed'']),
                        (''time'', PString ''09:00'')]\<rparr>)"
  by code_simp

text \<open>
  Claim C6, as the code has it. For valid day tokens and a valid time, the day-of-week
  list of the cron is the list of the days' numbers sorted ascending, with every duplicate
  kept (it is a permutation of the input's numbers); the text names the days in the order
  of the input. \<open>weekly(["fri","mon","wed"], "09:00")\<close> has cron \<open>0 9 * * 1,3,5\<close> and the
  text "every Friday, Monday, and Wednesday at 9:00 AM".
\<close>

theorem weekly_sorted_not_deduplicated:
  "(\<forall>ds t p. ds \<noteq> [] \<and> set ds \<subseteq> set validDays \<and> parseTime t = Some p \<longrightarrow>
      (\<exists>b v cs. weekly (ManyDays ds) t = Inr b \<and> map dayToken ds = map Some v \<and>
         cron b = numToString (minute p) @ '' '' @ numToString (hour p) @ '' * * '' @
                  join '','' (map numToString cs) \<and>
         sorted cs \<and> mset cs = mset (map dayOfWeekToCron v) \<and>
         humanReadable b = ''every '' @ listPhrase (map dayOfWeekToName v) @ '' at '' @
                           formatTime12Hour (hour p) (minute p))) \<and>
   (\<forall>d t. weekly (OneDay d) t = weekly (ManyDays [d]) t) \<and>
   map_sum id (\<lambda>b. (cron b, humanReadable b))
       (weekly (ManyDays [''fri'', ''mon'', ''wed'']) ''09:00'') =
     Inr (''0 9 * * 1,3,5'', ''every Friday, Monday, and Wednesday at 9:00 AM'')"
proof -
  have a: "\<forall>ds t p. ds \<noteq> [] \<and> set ds \<subseteq> set validDays \<and> parseTime t = Some p \<longrightarrow>
      (\<exists>b v cs. weekly (ManyDays ds) t = Inr b \<and> map dayToken ds = map Some v \<and>
         cron b = numToString (minute p) @ '' '' @ numToString (hour p) @ '' * * '' @
                  join '','' (map numToString cs) \<and>
         sorted cs \<and> mset cs = mset (map dayOfWeekToCron v) \<and>
         humanReadable b = ''every '' @ listPhrase (map dayOfWeekToName v) @ '' at '' @
                           formatTime12Hour (hour p) (minute p))"
  proof (intro allI impI, elim conjE)
    fix ds :: "string list" and t :: string and p :: ParsedTime
    assume ne: "ds \<noteq> []" and val: "set ds \<subseteq> set validDays" and pt: "parseTime t = Some p"
    from validateDays_valid [OF val] obtain v where
      v: "validateDays ds = Inr v" "map dayToken ds = map Some v" by blast
    define cs where "cs = sort (map dayOfWeekToCron v)"
    have "sorted cs" "mset cs = mset (map dayOfWeekToCron v)"
      by (simp_all add: cs_def)
    moreover note weekly_ok [OF ne v(1) pt, folded cs_def] v(2)
    ultimately show "\<exists>b v cs. weekly (ManyDays ds) t = Inr b \<and> map dayToken ds = map Some v \<and>
         cron b = numToString (minute p) @ '' '' @ numToString (hour p) @ '' * * '' @
                  join '','' (map numToString cs) \<and>
         sorted cs \<and> mset cs = mset (map dayOfWeekToCron v) \<and>
         humanReadable b = ''every '' @ listPhrase (map dayOfWeekToName v) @ '' at '' @
                           formatTime12Hour (hour p) (minute p)"
      by (simp add: createScheduleBuilder_def) blast
  qed
  have b: "\<forall>d t. weekly (OneDay d) t = weekly (ManyDays [d]) t"
    using weekly_OneDay by blast
  have c: "map_sum id (\<lambda>b. (cron b, humanReadable b))
       (weekly (ManyDays [''fri'', ''mon'', ''wed'']) ''09:00'') =
     Inr (''0 9 * * 1,3,5'', ''every Friday, Monday, and Wednesday at 9:00 AM'')"
    by (simp add: weekly_fri_mon_wed createScheduleBuilder_def)
  show ?thesis
    by (intro conjI; (rule a b c))
qed

text \<open>
  The claim as stated fails: a repeated day stays repeated in the cron, and the text of
  the example is not in weekday order.
\<close>

theorem weekly_claim_counterexample:
  "map_sum id cron (weekly (ManyDays [''mon'', ''mon'']) ''09:00'') = Inr ''0 9 * * 1,1'' \<and>
   map_sum id humanReadable (weekly (ManyDays [''fri'', ''mon'', ''wed'']) ''09:00'') =
     Inr ''every Friday, Monday, and Wednesday at 9:00 AM'' \<and>
   map_sum id humanReadable (weekly (ManyDays [''fri'', ''mon'', ''wed'']) ''09:00'') \<noteq>
     Inr ''every Monday, Wednesday, and Friday at 9:00 AM''"
  by code_simp

theorem weekly_sorted_not_deduplicated_witness:
  "[''sat'', ''sat'', ''sun''] \<noteq> [] \<and> set [''sat'', ''sat'', ''sun''] \<subseteq> set validDays \<and>
   parseTime ''18:30'' = Some \<lparr>hour = 18, minute = 30\<rparr> \<and>
   (\<exists>b. weekly (ManyDays [''sat'', ''sat'', ''sun'']) ''18:30'' = Inr b \<and>
      cron b = ''30 18 * * 0,6,6'' \<and>
      humanReadable b = ''every Saturday, Saturday, and Sunday at 6:30 PM'')"
proof -
  have h1: "[''sat'', ''sat'', ''sun''] \<noteq> [] \<and> set [''sat'', ''sat'', ''sun''] \<subseteq> set validDays"
    by (simp add: validDays_def)
  have h2: "parseTime ''18:30'' = Some \<lparr>hour = 18, minute = 30\<rparr>"
    by code_simp
  from weekly_sorted_not_deduplicated h1 h2 obtain b v cs where
    b: "weekly (ManyDays [''sat'', ''sat'', ''sun'']) ''18:30'' = Inr b"
    and v: "map dayToken [''sat'', ''sat'', ''sun''] = map Some v"
    and c: "cron b = numToString (minute \<lparr>hour = 18, minute = 30\<rparr>) @ '' '' @
              numToString (hour \<lparr>hour = 18, minute = 30\<rparr>) @ '' * * '' @
              join '','' (map numToString cs)"
    and s: "sorted cs" "mset cs = mset (map dayOfWeekToCron v)"
    and hr: "humanReadable b = ''every '' @ listPhrase (map dayOfWeekToName v) @ '' at '' @
              formatTime12Hour (hour \<lparr>hour = 18, minute = 30\<rparr>)
                (minute \<lparr>hour = 18, minute = 30\<rparr>)"
    by blast
  have "map dayToken [''sat'', ''sat'', ''sun''] = map Some [sat, sat, sun]"
    by (simp add: dayToken_def)
  with v have v': "v = [sat, sat, sun]"
    by (metis list.inj_map_strong option.inject)
  from s have "cs = sort (map dayOfWeekToCron v)"
    by (metis properties_for_sort)
  then have cs: "cs = [0, 6, 6]"
    by (simp add: v')
  have "cron b = ''30 18 * * 0,6,6''"
    unfolding c cs by code_simp
  moreover have "humanReadable b = ''every Saturday, Saturday, and Sunday at 6:30 PM''"
    unfolding hr v' by code_simp
  ultimately show ?thesis
    using h1 h2 b by simp
qed

subsection \<open>Raw cron expressions\<close>

lemma dropWhile_hd_id: "xs = [] \<or> \<not> P (hd xs) \<Longrightarrow> dropWhile P xs = xs"
  by (cases xs) auto

lemma dropWhile_hd: "dropWhile P xs = [] \<or> \<not> P (hd (dropWhile P xs))"
  using hd_dropWhile [of P xs] by blast

lemma last_dropWhile: "dropWhile P xs \<noteq> [] \<Longrightarrow> last (dropWhile P xs) = last xs"
  by (induction xs) (auto split: if_splits)

lemma trim_ends:
  "trim s = [] \<or> (\<not> isSpace (hd (trim s)) \<and> \<not> isSpace (last (trim s)))"
proof (cases "trim s = []")
  case True
  then show ?thesis by simp
next
  case False
  define u where "u = dropWhile isSpace s"
  define w where "w = dropWhile isSpace (rev u)"
  have t: "trim s = rev w" by (simp add: trim_def u_def w_def)
  with False have w: "w \<noteq> []" by simp
  then have ru: "rev u \<noteq> []" by (auto simp: w_def)
  have "\<not> isSpace (hd w)"
    using dropWhile_hd [of isSpace "rev u"] w unfolding w_def by blast
  then have l: "\<not> isSpace (last (trim s))"
    using w by (simp add: t last_rev)
  have "last w = last (rev u)"
    unfolding w_def using w last_dropWhile [of isSpace "rev u"] by (simp add: w_def)
  also have "\<dots> = hd u" using ru by (simp add: last_rev)
  finally have "hd (trim s) = hd u" using w by (simp add: t hd_rev)
  moreover have "\<not> isSpace (hd u)"
    using dropWhile_hd [of isSpace s] ru unfolding u_def by auto
  ultimately show ?thesis using l by simp
qed

lemma trim_id:
  assumes "s = [] \<or> (\<not> isSpace (hd s) \<and> \<not> isSpace (last s))"
  shows "trim s = s"
proof (cases "s = []")
  case True
  then show ?thesis by (simp add: trim_def)
next
  case False
  with assms have h: "\<not> isSpace (hd s)" and l: "\<not> isSpace (last s)" by auto
  from h False have 1: "dropWhile isSpace s = s" by (simp add: dropWhile_hd_id)
  from l False have "\<not> isSpace (hd (rev s))" by (simp add: hd_rev)
  then have 2: "dropWhile isSpace (rev s) = rev s" by (simp add: dropWhile_hd_id)
  show ?thesis by (simp add: trim_def 1 2)
qed

lemma trim_idem: "trim (trim s) = trim s"
  using trim_ends [of s] by (rule trim_id)

lemma splitWs_no_space: "p \<in> set (splitWs s) \<Longrightarrow> c \<in> set p \<Longrightarrow> \<not> isSpace c"
proof (induction s arbitrary: p rule: splitWs.induct)
  case (1 s)
  show ?case
  proof (cases "dropWhile (\<lambda>c. \<not> isSpace c) s = []")
    case True
    have "splitWs s = [takeWhile (\<lambda>c. \<not> isSpace c) s]"
      by (subst splitWs.simps) (simp only: Let_def True, simp)
    with "1.prems" have "p = takeWhile (\<lambda>c. \<not> isSpace c) s"
      by simp
    with "1.prems"(2) show ?thesis
      by (auto dest: set_takeWhileD)
  next
    case False
    have "splitWs s = takeWhile (\<lambda>c. \<not> isSpace c) s #
        splitWs (dropWhile isSpace (dropWhile (\<lambda>c. \<not> isSpace c) s))"
      by (subst splitWs.simps) (simp only: Let_def False if_False)
    with "1.prems"(1) have "p = takeWhile (\<lambda>c. \<not> isSpace c) s \<or>
        p \<in> set (splitWs (dropWhile isSpace (dropWhile (\<lambda>c. \<not> isSpace c) s)))"
      by simp
    then show ?thesis
    proof
      assume "p = takeWhile (\<lambda>c. \<not> isSpace c) s"
      with "1.prems"(2) show ?thesis by (auto dest: set_takeWhileD)
    next
      assume "p \<in> set (splitWs (dropWhile isSpace (dropWhile (\<lambda>c. \<not> isSpace c) s)))"
      from "1.IH" [OF refl refl False this "1.prems"(2)] show ?thesis .
    qed
  qed
qed

lemma splitWs_field:
  assumes "\<forall>c\<in>set f. \<not> isSpace c"
  shows "splitWs f = [f]"
proof -
  from assms have "takeWhile (\<lambda>c. \<not> isSpace c) f = f" "dropWhile (\<lambda>c. \<not> isSpace c) f = []"
    by simp_all
  then show ?thesis by (subst splitWs.simps) (simp only: Let_def, simp)
qed

lemma splitWs_step:
  assumes f: "\<forall>c\<in>set f. \<not> isSpace c"
    and sep: "sep \<noteq> []" "\<forall>c\<in>set sep. isSpace c"
    and r: "r = [] \<or> \<not> isSpace (hd r)"
  shows "splitWs (f @ sep @ r) = f # splitWs r"
proof -
  from sep obtain x xs where x: "sep = x # xs" "isSpace x" by (cases sep) auto
  have t: "takeWhile (\<lambda>c. \<not> isSpace c) (f @ sep @ r) = f"
    using f x by (simp add: takeWhile_append2)
  have d: "dropWhile (\<lambda>c. \<not> isSpace c) (f @ sep @ r) = sep @ r"
    using f x by (simp add: dropWhile_append2)
  have "dropWhile isSpace (sep @ r) = dropWhile isSpace r"
    using sep(2) by (simp add: dropWhile_append2)
  also have "\<dots> = r" using r by (rule dropWhile_hd_id)
  finally have e: "dropWhile isSpace (sep @ r) = r" .
  have "splitWs (f @ sep @ r) =
      (if sep @ r = [] then [f] else f # splitWs (dropWhile isSpace (sep @ r)))"
    by (subst splitWs.simps) (simp only: t d Let_def)
  then show ?thesis
    using sep(1) e by simp
qed

lemma join_ends:
  "fs \<noteq> [] \<Longrightarrow> \<forall>f\<in>set fs. f \<noteq> [] \<Longrightarrow>
   join sep fs \<noteq> [] \<and> hd (join sep fs) = hd (hd fs) \<and> last (join sep fs) = last (last fs)"
  by (induction sep fs rule: join.induct) auto

lemma splitWs_join:
  "fs \<noteq> [] \<Longrightarrow> \<forall>f\<in>set fs. f \<noteq> [] \<and> (\<forall>c\<in>set f. \<not> isSpace c) \<Longrightarrow>
   splitWs (join '' '' fs) = fs"
proof (induction "'' ''" fs rule: join.induct)
  case 1
  then show ?case by simp
next
  case (2 x)
  then show ?case by (simp add: splitWs_field)
next
  case (3 x y ys)
  have sp: "'' '' \<noteq> []" "\<forall>c\<in>set '' ''. isSpace c"
    by (simp_all add: isSpace_def)
  from 3 have fx: "\<forall>c\<in>set x. \<not> isSpace c" by simp
  from 3 have "\<forall>f\<in>set (y # ys). f \<noteq> []" by simp
  from join_ends [OF _ this, of "'' ''"] 3
  have r: "join '' '' (y # ys) = [] \<or> \<not> isSpace (hd (join '' '' (y # ys)))"
    by (cases y) auto
  from 3 have IH: "splitWs (join '' '' (y # ys)) = y # ys" by simp
  show ?case
    using splitWs_step [OF fx sp r] IH by simp
qed

lemma cron_chars:
  "(isDigit c \<or> c \<in> set ''*,/-LW#'') = (c \<in> set ''0123456789*,/-LW#'')"
  unfolding isDigit_def by (simp only: set_append [symmetric] append.simps Un_iff [symmetric])

lemma cron_char_not_space: "c \<in> set ''0123456789*,/-LW#'' \<Longrightarrow> \<not> isSpace c"
  unfolding isSpace_def by (simp, elim disjE; simp)

lemma validPattern_chars:
  "validPattern f \<longleftrightarrow> f \<noteq> [] \<and> set f \<subseteq> set ''0123456789*,/-LW#''"
  unfolding validPattern_def cron_chars list_all_iff by blast

lemma validPattern_field:
  "validPattern f \<Longrightarrow> f \<noteq> [] \<and> (\<forall>c\<in>set f. \<not> isSpace c)"
  unfolding validPattern_chars using cron_char_not_space by blast

lemma trim_join:
  assumes "fs \<noteq> []" "\<forall>f\<in>set fs. f \<noteq> [] \<and> (\<forall>c\<in>set f. \<not> isSpace c)"
  shows "trim (join '' '' fs) = join '' '' fs"
proof (rule trim_id)
  from assms have ne: "\<forall>f\<in>set fs. f \<noteq> []" by simp
  from assms have "hd fs \<in> set fs" "last fs \<in> set fs" by simp_all
  with assms(2) have "\<not> isSpace (hd (hd fs))" "\<not> isSpace (last (last fs))"
    by (metis hd_in_set, metis last_in_set)
  with join_ends [OF assms(1) ne, of "'' ''"]
  show "join '' '' fs = [] \<or>
      \<not> isSpace (hd (join '' '' fs)) \<and> \<not> isSpace (last (join '' '' fs))"
    by simp
qed

lemma cron_expr_unfold:
  "cron_expr e =
     (if (length (splitWs (trim e)) = 5 \<or> length (splitWs (trim e)) = 6) \<and>
         list_all validPattern (splitWs (trim e))
      then Inr (createScheduleBuilder
             \<lparr>type = Cron, cron = trim e, timezone = None,
              humanReadable = cronToHumanReadable (trim e),
              originalParams = [(''expression'', PString (trim e))]\<rparr>)
      else Inl (invalidCronExpression e))"
  by (simp add: cron_expr_def validateCronExpression_def trim_idem Let_def)

lemma cron_expr_canonical:
  assumes "length fs = 5 \<or> length fs = 6" "\<forall>f\<in>set fs. validPattern f"
  shows "\<exists>b. cron_expr (join '' '' fs) = Inr b \<and> cron b = join '' '' fs"
proof -
  from assms(1) have ne: "fs \<noteq> []" by auto
  from assms(2) have fl: "\<forall>f\<in>set fs. f \<noteq> [] \<and> (\<forall>c\<in>set f. \<not> isSpace c)"
    using validPattern_field by blast
  have t: "trim (join '' '' fs) = join '' '' fs" by (rule trim_join [OF ne fl])
  have s: "splitWs (join '' '' fs) = fs" by (rule splitWs_join [OF ne fl])
  from assms show ?thesis
    unfolding cron_expr_unfold t s
    by (auto simp: list_all_iff createScheduleBuilder_def)
qed

text \<open>
  Claim C7, as the code has it. \<open>cron(expr)\<close> accepts exactly the expressions whose
  trimmed form splits on white space into five or six fields, each a non-empty string
  over the characters \<open>0-9 * , / - L W #\<close>, and rejects every other expression with the
  invalid-expression error. The accepted expression is stored trimmed and not otherwise
  changed: white space between the fields is kept as the input has it. Five or six valid
  fields joined by single spaces are accepted and stored as they are.
\<close>

theorem cron_expr_stores_trimmed:
  "(\<forall>e. cron_expr e =
      (if (length (splitWs (trim e)) = 5 \<or> length (splitWs (trim e)) = 6) \<and>
          (\<forall>f\<in>set (splitWs (trim e)). f \<noteq> [] \<and> set f \<subseteq> set ''0123456789*,/-LW#'')
       then Inr (createScheduleBuilder
              \<lparr>type = Cron, cron = trim e, timezone = None,
               humanReadable = cronToHumanReadable (trim e),
               originalParams = [(''expression'', PString (trim e))]\<rparr>)
       else Inl (invalidCronExpression e))) \<and>
   (\<forall>e. trim e = [] \<or> (\<not> isSpace (hd (trim e)) \<and> \<not> isSpace (last (trim e)))) \<and>
   (\<forall>e p c. p \<in> set (splitWs (trim e)) \<and> c \<in> set p \<longrightarrow> \<not> isSpace c) \<and>
   (\<forall>fs. (length fs = 5 \<or> length fs = 6) \<and> (\<forall>f\<in>set fs. validPattern f) \<longrightarrow>
      (\<exists>b. cron_expr (join '' '' fs) = Inr b \<and> cron b = join '' '' fs)) \<and>
   map_sum id cron (cron_expr ''  0 9 * * *  '') = Inr ''0 9 * * *'' \<and>
   map_sum id cron (cron_expr ''0  9 * * *'') = Inr ''0  9 * * *''"
proof -
  have a: "\<forall>e. cron_expr e =
      (if (length (splitWs (trim e)) = 5 \<or> length (splitWs (trim e)) = 6) \<and>
          (\<forall>f\<in>set (splitWs (trim e)). f \<noteq> [] \<and> set f \<subseteq> set ''0123456789*,/-LW#'')
       then Inr (createScheduleBuilder
              \<lparr>type = Cron, cron = trim e, timezone = None,
               humanReadable = cronToHumanReadable (trim e),
               originalParams = [(''expression'', PString (trim e))]\<rparr>)
       else Inl (invalidCronExpression e))"
    unfolding validPattern_chars [symmetric] list_all_iff [symmetric]
    using cron_expr_unfold by blast
  have b: "\<forall>e. trim e = [] \<or> (\<not> isSpace (hd (trim e)) \<and> \<not> isSpace (last (trim e)))"
    using trim_ends by blast
  have c: "\<forall>e p c. p \<in> set (splitWs (trim e)) \<and> c \<in> set p \<longrightarrow> \<not> isSpace c"
    using splitWs_no_space by blast
  have d: "\<forall>fs. (length fs = 5 \<or> length fs = 6) \<and> (\<forall>f\<in>set fs. validPattern f) \<longrightarrow>
      (\<exists>b. cron_expr (join '' '' fs) = Inr b \<and> cron b = join '' '' fs)"
    using cron_expr_canonical by blast
  have e1: "map_sum id cron (cron_expr ''  0 9 * * *  '') = Inr ''0 9 * * *''"
    by code_simp
  have e2: "map_sum id cron (cron_expr ''0  9 * * *'') = Inr ''0  9 * * *''"
    by code_simp
  show ?thesis
    by (intro conjI; (rule a b c d e1 e2))
qed

theorem cron_expr_stores_trimmed_witness:
  "splitWs (trim '' 0 9 * * 1-5'') = [''0'', ''9'', ''*'', ''*'', ''1-5''] \<and>
   map_sum id cron (cron_expr '' 0 9 * * 1-5'') = Inr ''0 9 * * 1-5'' \<and>
   splitWs (trim ''a b c d e'') = [''a'', ''b'', ''c'', ''d'', ''e''] \<and>
   cron_expr ''a b c d e'' = Inl (invalidCronExpression ''a b c d e'')"
proof -
  have s1: "splitWs (trim '' 0 9 * * 1-5'') = [''0'', ''9'', ''*'', ''*'', ''1-5'']"
    by code_simp
  have t1: "trim '' 0 9 * * 1-5'' = ''0 9 * * 1-5''"
    by code_simp
  have s2: "splitWs (trim ''a b c d e'') = [''a'', ''b'', ''c'', ''d'', ''e'']"
    by code_simp
  have s1': "splitWs ''0 9 * * 1-5'' = [''0'', ''9'', ''*'', ''*'', ''1-5'']"
    by code_simp
  have t2: "trim ''a b c d e'' = ''a b c d e''"
    by code_simp
  have s2': "splitWs ''a b c d e'' = [''a'', ''b'', ''c'', ''d'', ''e'']"
    by code_simp
  from cron_expr_stores_trimmed have
    "cron_expr '' 0 9 * * 1-5'' =
      (if (length (splitWs (trim '' 0 9 * * 1-5'')) = 5 \<or>
           length (splitWs (trim '' 0 9 * * 1-5'')) = 6) \<and>
          (\<forall>f\<in>set (splitWs (trim '' 0 9 * * 1-5'')).
             f \<noteq> [] \<and> set f \<subseteq> set ''0123456789*,/-LW#'')
       then Inr (createScheduleBuilder
              \<lparr>type = Cron, cron = trim '' 0 9 * * 1-5'', timezone = None,
               humanReadable = cronToHumanReadable (trim '' 0 9 * * 1-5''),
               originalParams = [(''expression'', PString (trim '' 0 9 * * 1-5''))]\<rparr>)
       else Inl (invalidCronExpression '' 0 9 * * 1-5''))"
    by blast
  then have r1: "map_sum id cron (cron_expr '' 0 9 * * 1-5'') = Inr ''0 9 * * 1-5''"
    unfolding t1 s1' by (simp add: createScheduleBuilder_def)
  from cron_expr_stores_trimmed have
    "cron_expr ''a b c d e'' =
      (if (length (splitWs (trim ''a b c d e'')) = 5 \<or>
           length (splitWs (trim ''a b c d e'')) = 6) \<and>
          (\<forall>f\<in>set (splitWs (trim ''a b c d e'')).
             f \<noteq> [] \<and> set f \<subseteq> set ''0123456789*,/-LW#'')
       then Inr (createScheduleBuilder
              \<lparr>type = Cron, cron = trim ''a b c d e'', timezone = None,
               humanReadable = cronToHumanReadable (trim ''a b c d e''),
               originalParams = [(''expression'', PString (trim ''a b c d e''))]\<rparr>)
       else Inl (invalidCronExpression ''a b c d e''))"
    by blast
  then have r2: "cron_expr ''a b c d e'' = Inl (invalidCronExpression ''a b c d e'')"
    unfolding t2 s2' by simp
  from s1 r1 s2 r2 show ?thesis by simp
qed

text \<open>
  The claim as stated fails: a run of two spaces between fields is stored as two spaces.
\<close>

theorem cron_expr_compress_counterexample:
  "map_sum id cron (cron_expr ''0  9 * * *'') = Inr ''0  9 * * *'' \<and>
   map_sum id cron (cron_expr ''0  9 * * *'') \<noteq> Inr ''0 9 * * *''"
  by code_simp

subsection \<open>Timezones\<close>

lemma withTimezone_fields:
  "timezone (withTimezone (createScheduleBuilder d) tz) = Some tz \<and>
   type (withTimezone (createScheduleBuilder d) tz) = type (createScheduleBuilder d) \<and>
   cron (withTimezone (createScheduleBuilder d) tz) = cron (createScheduleBuilder d) \<and>
   humanReadable (withTimezone (createScheduleBuilder d) tz) =
     humanReadable (createScheduleBuilder d) \<and>
   originalParams (withTimezone (createScheduleBuilder d) tz) =
     originalParams (createScheduleBuilder d)"
  by (simp add: withTimezone_def createScheduleBuilder_def)

lemma callWithTimezone_frame:
  assumes "r < length h"
  shows "\<exists>r' h'. callWithTimezone h r tz = Some (r', h') \<and> r' \<noteq> r \<and> r' = length h \<and>
           length h' = Suc (length h) \<and> (\<forall>i. i < length h \<longrightarrow> h' ! i = h ! i) \<and>
           h' ! r' = withTimezone (h ! r) tz"
  using assms by (simp add: callWithTimezone_def allocBuilder_def nth_append)

text \<open>
  Claim C8. For every descriptor \<open>d\<close> and timezone \<open>tz\<close>, \<open>withTimezone(tz)\<close> on the builder
  of \<open>d\<close> returns a builder whose timezone is \<open>tz\<close> and whose type, cron, text and
  original parameters are those of \<open>d\<close>. As a method call on the store it allocates a new
  object and leaves every existing object, the receiver among them, as it was.
\<close>

theorem withTimezone_new_descriptor:
  "(\<forall>d tz.
      timezone (withTimezone (createScheduleBuilder d) tz) = Some tz \<and>
      type (withTimezone (createScheduleBuilder d) tz) = type (createScheduleBuilder d) \<and>
      cron (withTimezone (createScheduleBuilder d) tz) = cron (createScheduleBuilder d) \<and>
      humanReadable (withTimezone (createScheduleBuilder d) tz) =
        humanReadable (createScheduleBuilder d) \<and>
      originalParams (withTimezone (createScheduleBuilder d) tz) =
        originalParams (createScheduleBuilder d)) \<and>
   (\<forall>h r d tz. r < length h \<and> h ! r = createScheduleBuilder d \<longrightarrow>
      (\<exists>r' h'. callWithTimezone h r tz = Some (r', h') \<and> r' \<noteq> r \<and>
         (\<forall>i. i < length h \<longrightarrow> h' ! i = h ! i) \<and>
         h' ! r = createScheduleBuilder d \<and>
         timezone (h' ! r') = Some tz \<and> type (h' ! r') = type (h ! r) \<and>
         cron (h' ! r') = cron (h ! r) \<and> humanReadable (h' ! r') = humanReadable (h ! r) \<and>
         originalParams (h' ! r') = originalParams (h ! r)))"
proof -
  have a: "\<forall>d tz.
      timezone (withTimezone (createScheduleBuilder d) tz) = Some tz \<and>
      type (withTimezone (createScheduleBuilder d) tz) = type (createScheduleBuilder d) \<and>
      cron (withTimezone (createScheduleBuilder d) tz) = cron (createScheduleBuilder d) \<and>
      humanReadable (withTimezone (createScheduleBuilder d) tz) =
        humanReadable (createScheduleBuilder d) \<and>
      originalParams (withTimezone (createScheduleBuilder d) tz) =
        originalParams (createScheduleBuilder d)"
    using withTimezone_fields by blast
  have b: "\<forall>h r d tz. r < length h \<and> h ! r = createScheduleBuilder d \<longrightarrow>
      (\<exists>r' h'. callWithTimezone h r tz = Some (r', h') \<and> r' \<noteq> r \<and>
         (\<forall>i. i < length h \<longrightarrow> h' ! i = h ! i) \<and>
         h' ! r = createScheduleBuilder d \<and>
         timezone (h' ! r') = Some tz \<and> type (h' ! r') = type (h ! r) \<and>
         cron (h' ! r') = cron (h ! r) \<and> humanReadable (h' ! r') = humanReadable (h ! r) \<and>
         originalParams (h' ! r') = originalParams (h ! r))"
  proof (intro allI impI, elim conjE)
    fix h :: heap and r d tz
    assume r: "r < length h" and d: "h ! r = createScheduleBuilder d"
    from callWithTimezone_frame [OF r, of tz] obtain r' h' where
      *: "callWithTimezone h r tz = Some (r', h')" "r' \<noteq> r"
         "\<forall>i. i < length h \<longrightarrow> h' ! i = h ! i" "h' ! r' = withTimezone (h ! r) tz"
      by blast
    from * r d have "h' ! r = createScheduleBuilder d" by simp
    with * withTimezone_fields [of d tz] d
    show "\<exists>r' h'. callWithTimezone h r tz = Some (r', h') \<and> r' \<noteq> r \<and>
         (\<forall>i. i < length h \<longrightarrow> h' ! i = h ! i) \<and>
         h' ! r = createScheduleBuilder d \<and>
         timezone (h' ! r') = Some tz \<and> type (h' ! r') = type (h ! r) \<and>
         cron (h' ! r') = cron (h ! r) \<and> humanReadable (h' ! r') = humanReadable (h ! r) \<and>
         originalParams (h' ! r') = originalParams (h ! r)"
      by simp
  qed
  show ?thesis
    by (intro conjI; (rule a b))
qed

theorem withTimezone_new_descriptor_witness:
  "(0::nat) < length [createScheduleBuilder
       \<lparr>type = Interval, cron = ''0 */1 * * *'', timezone = None,
        humanReadable = ''every 1 hour'', originalParams = [(''interval'', PString ''1h'')]\<rparr>] \<and>
   callWithTimezone [createScheduleBuilder
       \<lparr>type = Interval, cron = ''0 */1 * * *'', timezone = None,
        humanReadable = ''every 1 hour'', originalParams = [(''interval'', PString ''1h'')]\<rparr>]
     0 ''America/New_York'' =
   Some (1, [createScheduleBuilder
       \<lparr>type = Interval, cron = ''0 */1 * * *'', timezone = None,
        humanReadable = ''every 1 hour'', originalParams = [(''interval'', PString ''1h'')]\<rparr>,
     createScheduleBuilder
       \<lparr>type = Interval, cron = ''0 */1 * * *'', timezone = Some ''America/New_York'',
        humanReadable = ''every 1 hour'', originalParams = [(''interval'', PString ''1h'')]\<rparr>])"
proof -
  define d where "d = \<lparr>type = Interval, cron = ''0 */1 * * *'', timezone = None,
        humanReadable = ''every 1 hour'', originalParams = [(''interval'', PString ''1h'')]\<rparr>"
  have h: "(0::nat) < length [createScheduleBuilder d] \<and>
      [createScheduleBuilder d] ! 0 = createScheduleBuilder d"
    by simp
  from withTimezone_new_descriptor h obtain r' h' where
    *: "callWithTimezone [createScheduleBuilder d] 0 ''America/New_York'' = Some (r', h')"
       "h' ! 0 = createScheduleBuilder d"
       "timezone (h' ! r') = Some ''America/New_York''"
    by blast
  from *(1) have "r' = 1" "h' = [createScheduleBuilder d,
      withTimezone (createScheduleBuilder d) ''America/New_York'']"
    by (auto simp: callWithTimezone_def allocBuilder_def)
  with *(1) show ?thesis
    unfolding d_def by (simp add: withTimezone_def createScheduleBuilder_def)
qed

section \<open>Properties of the execution engine\<close>

lemma now_frame [simp]:
  "now e w = (t, w') \<Longrightarrow>
   listeners w' = listeners w \<and> emitted w' = emitted w \<and> notified w' = notified w \<and>
   invocations w' = invocations w \<and> sleeps w' = sleeps w \<and> draws w' = draws w"
  by (auto simp: now_def)


lemma draw_frame [simp]:
  "draw e w = (t, w') \<Longrightarrow>
   listeners w' = listeners w \<and> emitted w' = emitted w \<and> notified w' = notified w \<and>
   invocations w' = invocations w \<and> sleeps w' = sleeps w"
  by (auto simp: draw_def)


lemma forEachListener_frame:
  "forEachListener ls ev w = (x, w') \<Longrightarrow>
   listeners w' = listeners w \<and> emitted w' = emitted w \<and> invocations w' = invocations w \<and>
   sleeps w' = sleeps w \<and> ticks w' = ticks w \<and> draws w' = draws w"
  by (induction ls arbitrary: w) (auto simp: Let_def split: option.splits)



lemma emit_frame:
  assumes "emit ev w = (x, w')"
  shows "listeners w' = listeners w \<and> emitted w' = emitted w @ [ev] \<and>
   invocations w' = invocations w \<and> sleeps w' = sleeps w \<and> ticks w' = ticks w \<and>
   draws w' = draws w"
proof -
  define w0 where "w0 = w\<lparr>emitted := emitted w @ [ev]\<rparr>"
  obtain x1 w1 where f1: "forEachListener (listeners w0 (eventTypeName (ev_type ev))) ev w0 = (x1, w1)"
    by (cases "forEachListener (listeners w0 (eventTypeName (ev_type ev))) ev w0")
  obtain x2 w2 where f2: "forEachListener (listeners w1 ''*'') ev w1 = (x2, w2)"
    by (cases "forEachListener (listeners w1 ''*'') ev w1")
  note fr1 = forEachListener_frame [OF f1] and fr2 = forEachListener_frame [OF f2]
  have w0: "listeners w0 = listeners w" "emitted w0 = emitted w @ [ev]"
    "invocations w0 = invocations w" "sleeps w0 = sleeps w" "ticks w0 = ticks w"
    "draws w0 = draws w"
    by (simp_all add: w0_def)
  from assms have "(x, w') = (case x1 of Some t \<Rightarrow> (Some t, w1) | None \<Rightarrow> (x2, w2))"
    unfolding emit_def Let_def w0_def [symmetric] f1 using f2
    by (cases x1) auto
  then have "w' = w1 \<or> w' = w2" by (cases x1) simp_all
  with fr1 fr2 w0 show ?thesis by auto
qed


lemma quiet_listeners: "listeners w' = listeners w \<Longrightarrow> quiet w' = quiet w"
  by (simp add: quiet_def)

lemma executeAttempt_frame:
  assumes "executeAttempt e job runId a ac w = (x, ac', w')"
  shows "ac' = ac \<and> listeners w' = listeners w \<and> emitted w' = emitted w \<and>
   notified w' = notified w \<and> sleeps w' = sleeps w"
  using assms unfolding executeAttempt_def Let_def
  by (cases "timeoutOf job") auto

lemma emit_cases:
  obtains t w' where "emit ev w = (Some t, w')" | w' where "emit ev w = (None, w')"
  by (cases "emit ev w"; cases "fst (emit ev w)") auto

lemma finalFailure_frame:
  assumes "finalFailure e job runId s a le it ac w = (st, ac', w')"
  shows "ac' = ac \<and> listeners w' = listeners w \<and> (\<exists>out. st = Exit out) \<and>
    emitted w' = emitted w @
      [failureEvent job runId s (clock e (ticks w)) a it (errorInfoOf le)]"
proof -
  define w1 where "w1 = w\<lparr>ticks := Suc (ticks w)\<rparr>"
  define ev where "ev = failureEvent job runId s (clock e (ticks w)) a it (errorInfoOf le)"
  obtain x w2 where em: "emit ev w1 = (x, w2)" by (cases "emit ev w1")
  from emit_frame [OF em] have fr: "listeners w2 = listeners w" "emitted w2 = emitted w @ [ev]"
    by (simp_all add: w1_def)
  from assms have "ac' = ac \<and> w' = w2 \<and> (\<exists>out. st = Exit out)"
    unfolding finalFailure_def Let_def now_def prod.case w1_def [symmetric] ev_def [symmetric] em
    by (cases x; cases "onFailure (config job)") auto
  with fr show ?thesis by (simp add: ev_def)
qed




lemma failureEvent_type:
  "ev_type (failureEvent job runId s c a it ei) = (if it then JobTimeout else JobFailure) \<and>
   ev_attempt (failureEvent job runId s c a it ei) = a"
  by (simp add: failureEvent_def)


lemma retryEvent_type:
  "ev_type (retryEvent job runId ts a ei) = JobRetry \<and>
   ev_attempt (retryEvent job runId ts a ei) = a"
  by (simp add: retryEvent_def)



text \<open>The catch clause, whatever the listeners do.\<close>

lemma catchBlock_frame:
  assumes "catchBlock e job runId s a err ac w = (st, ac', w')"
  shows "ac' = ac \<and> listeners w' = listeners w \<and>
    (\<exists>ev. emitted w' = emitted w @ [ev] \<and> ev_attempt ev = a) \<and>
    (\<forall>le. st = Continue le \<longrightarrow> (\<exists>r. retry (config job) = Some r \<and> shouldRetry a r))"
proof (cases "\<exists>r. retry (config job) = Some r \<and> shouldRetry a r")
  case False
  then have "catchBlock e job runId s a err ac w =
      finalFailure e job runId s a (toError e err) (caughtTimeout err) ac w"
    unfolding catchBlock_def Let_def by (cases "retry (config job)") auto
  with assms finalFailure_frame [of e job runId s a "toError e err" "caughtTimeout err" ac w st ac' w']
  show ?thesis by (auto simp: failureEvent_type)
next
  case True
  then obtain r where r: "retry (config job) = Some r" "shouldRetry a r" by blast
  define w1 where "w1 = w\<lparr>ticks := Suc (ticks w)\<rparr>"
  define ev where "ev = retryEvent job runId (clock e (ticks w)) a (errorInfoOf (toError e err))"
  obtain x w2 where em: "emit ev w1 = (x, w2)" by (cases "emit ev w1")
  from emit_frame [OF em] have fr: "listeners w2 = listeners w" "emitted w2 = emitted w @ [ev]"
    by (simp_all add: w1_def)
  from assms r(2) have "ac' = ac \<and>
      (w' = w2 \<or> (\<exists>d. w' = w2\<lparr>sleeps := sleeps w2 @ [d]\<rparr>))"
    unfolding catchBlock_def Let_def now_def prod.case r(1) option.case
      w1_def [symmetric] ev_def [symmetric] em
    by (cases x; cases "calculateRetryDelay a r") auto
  with fr r show ?thesis
    by (auto simp: ev_def retryEvent_type)
qed


lemma tryBlock_frame:
  assumes "tryBlock e job runId s a ac w = (x, ac', w')"
  shows "ac' = ac \<and> listeners w' = listeners w"
proof -
  obtain y ac1 w1 where ea: "executeAttempt e job runId a ac w = (y, ac1, w1)"
    by (cases "executeAttempt e job runId a ac w")
  note fr = executeAttempt_frame [OF ea]
  show ?thesis
  proof (cases y)
    case (Some t)
    with assms ea have "ac' = ac1 \<and> w' = w1"
      unfolding tryBlock_def by simp
    with fr show ?thesis by simp
  next
    case None
    define w2 where "w2 = w1\<lparr>ticks := Suc (ticks w1)\<rparr>"
    define ev where "ev = successEvent job runId s (clock e (ticks w1)) a"
    obtain z w3 where em: "emit ev w2 = (z, w3)" by (cases "emit ev w2")
    from emit_frame [OF em] have l3: "listeners w3 = listeners w1"
      by (simp add: w2_def)
    from assms have "ac' = ac1 \<and> w' = w3"
      unfolding tryBlock_def ea None Let_def now_def prod.case option.case
        w2_def [symmetric] ev_def [symmetric] em
      by (cases z; cases "onSuccess (config job)") auto
    with fr l3 show ?thesis by simp
  qed
qed


lemma iteration_frame:
  assumes "iteration e job runId s a ac w = (st, ac', w')"
  shows "ac' = ac \<and> listeners w' = listeners w \<and>
    (\<forall>le. st = Continue le \<longrightarrow> (\<exists>r. retry (config job) = Some r \<and> shouldRetry a r))"
proof -
  obtain x ac1 w1 where tb: "tryBlock e job runId s a ac w = (x, ac1, w1)"
    by (cases "tryBlock e job runId s a ac w")
  note fr = tryBlock_frame [OF tb]
  show ?thesis
  proof (cases x)
    case (Inr out)
    with assms tb fr show ?thesis
      unfolding iteration_def by auto
  next
    case (Inl err)
    with assms tb have "catchBlock e job runId s a err ac1 w1 = (st, ac', w')"
      unfolding iteration_def by simp
    from catchBlock_frame [OF this] fr show ?thesis by simp
  qed
qed


lemma attemptLoop_step:
  assumes "of_int a \<le> m" "iteration e job runId s a ac w = (st, ac1, w1)"
  shows "attemptLoop e job runId s m a le ac w =
     (case st of
        Continue err \<Rightarrow> attemptLoop e job runId s m (a + 1) (Some err) ac1 w1
      | Exit out \<Rightarrow> (Left out, ac1, w1))"
  using assms by (subst attemptLoop.simps) (simp split: step.splits)

lemma attemptLoop_done:
  "\<not> of_int a \<le> m \<Longrightarrow> attemptLoop e job runId s m a le ac w = (Fallthrough a le, ac, w)"
  by (subst attemptLoop.simps) simp

lemma measure_step:
  "of_int a \<le> (m::real) \<Longrightarrow> nat (\<lfloor>m\<rfloor> + 1 - (a + 1)) < nat (\<lfloor>m\<rfloor> + 1 - a)"
  by (simp add: le_floor_iff)



lemma attemptLoop_frame:
  "attemptLoop e job runId s m a le ac w = (x, ac', w') \<Longrightarrow>
   ac' = ac \<and> listeners w' = listeners w"
proof (induction "nat (\<lfloor>m\<rfloor> + 1 - a)" arbitrary: a le ac w rule: less_induct)
  case less
  show ?case
  proof (cases "of_int a \<le> m")
    case False
    with less.prems show ?thesis by (simp add: attemptLoop_done)
  next
    case True
    obtain st ac1 w1 where it: "iteration e job runId s a ac w = (st, ac1, w1)"
      by (cases "iteration e job runId s a ac w")
    note fr = iteration_frame [OF it]
    show ?thesis
    proof (cases st)
      case (Exit out)
      with less.prems True it fr show ?thesis
        by (simp add: attemptLoop_step [OF True it])
    next
      case (Continue err)
      with less.prems have nx: "attemptLoop e job runId s m (a + 1) (Some err) ac1 w1 = (x, ac', w')"
        by (simp add: attemptLoop_step [OF True it])
      from less.hyps [OF measure_step [OF True] nx] fr show ?thesis by simp
    qed
  qed
qed




lemma run_unfold:
  "\<exists>runId s ts w3. listeners w3 = listeners w \<and> emitted w3 = emitted w \<and>
     notified w3 = notified w \<and> invocations w3 = invocations w \<and>
     run e job w =
      (case emit (startEvent job runId ts 1) w3 of
         (Some t, w4) \<Rightarrow> (Rejected t, \<lparr>aborted = False\<rparr>, w4)
       | (None, w4) \<Rightarrow>
           (case attemptLoop e job runId s (maxAttemptsOf job) 1 None \<lparr>aborted = False\<rparr> w4 of
              (Left out, ac, w5) \<Rightarrow> (out, ac, w5)
            | (Fallthrough a' le, ac, w5) \<Rightarrow>
                (Resolved (fallbackResult job runId s (clock e (ticks w5)) a' le), ac,
                 w5\<lparr>ticks := Suc (ticks w5)\<rparr>)))"
  unfolding run_def generateRunId_def now_def draw_def Let_def prod.case
  apply (rule exI [where x = "''run_'' @ numberToString (Num (clock e (ticks w))) @ ''_'' @
      random e (draws (w\<lparr>ticks := Suc (ticks w)\<rparr>))"])
  apply (rule exI [where x = "clock e (ticks (w\<lparr>ticks := Suc (ticks w),
      draws := Suc (draws (w\<lparr>ticks := Suc (ticks w)\<rparr>))\<rparr>))"])
  apply (rule exI [where x = "clock e (ticks (w\<lparr>ticks := Suc (ticks w),
      draws := Suc (draws (w\<lparr>ticks := Suc (ticks w)\<rparr>)),
      ticks := Suc (ticks (w\<lparr>ticks := Suc (ticks w),
        draws := Suc (draws (w\<lparr>ticks := Suc (ticks w)\<rparr>))\<rparr>))\<rparr>))"])
  apply (rule exI [where x = "w\<lparr>ticks := Suc (ticks w),
      draws := Suc (draws (w\<lparr>ticks := Suc (ticks w)\<rparr>)),
      ticks := Suc (ticks (w\<lparr>ticks := Suc (ticks w),
        draws := Suc (draws (w\<lparr>ticks := Suc (ticks w)\<rparr>))\<rparr>)),
      ticks := Suc (ticks (w\<lparr>ticks := Suc (ticks w),
        draws := Suc (draws (w\<lparr>ticks := Suc (ticks w)\<rparr>)),
        ticks := Suc (ticks (w\<lparr>ticks := Suc (ticks w),
          draws := Suc (draws (w\<lparr>ticks := Suc (ticks w)\<rparr>))\<rparr>))\<rparr>))\<rparr>"])
  apply (simp split: prod.splits option.splits loop_end.splits)
  done



lemma run_controller:
  assumes "run e job w = (out, ac, w')"
  shows "aborted ac = False"
proof -
  from run_unfold [of w e job] obtain runId s ts w3 where
    u: "run e job w =
      (case emit (startEvent job runId ts 1) w3 of
         (Some t, w4) \<Rightarrow> (Rejected t, \<lparr>aborted = False\<rparr>, w4)
       | (None, w4) \<Rightarrow>
           (case attemptLoop e job runId s (maxAttemptsOf job) 1 None \<lparr>aborted = False\<rparr> w4 of
              (Left out, ac, w5) \<Rightarrow> (out, ac, w5)
            | (Fallthrough a' le, ac, w5) \<Rightarrow>
                (Resolved (fallbackResult job runId s (clock e (ticks w5)) a' le), ac,
                 w5\<lparr>ticks := Suc (ticks w5)\<rparr>)))"
    by blast
  obtain x w4 where em: "emit (startEvent job runId ts 1) w3 = (x, w4)"
    by (cases "emit (startEvent job runId ts 1) w3")
  obtain y ac1 w5 where al:
    "attemptLoop e job runId s (maxAttemptsOf job) 1 None \<lparr>aborted = False\<rparr> w4 = (y, ac1, w5)"
    by (cases "attemptLoop e job runId s (maxAttemptsOf job) 1 None \<lparr>aborted = False\<rparr> w4")
  from attemptLoop_frame [OF al] have "ac1 = \<lparr>aborted = False\<rparr>" by simp
  with assms al show ?thesis
    unfolding u em by (cases x; cases y) auto
qed




lemma generateRunId_frame:
  "generateRunId e w = (r, w') \<Longrightarrow>
   listeners w' = listeners w \<and> emitted w' = emitted w \<and> notified w' = notified w \<and>
   invocations w' = invocations w \<and> sleeps w' = sleeps w"
  unfolding generateRunId_def now_def draw_def Let_def prod.case by auto

lemma skippedResult_frame:
  "skippedResult msg e job w = (r, w') \<Longrightarrow>
   listeners w' = listeners w \<and> emitted w' = emitted w \<and> notified w' = notified w \<and>
   invocations w' = invocations w \<and> sleeps w' = sleeps w \<and>
   status r = Failure \<and> res_attempt r = 0 \<and> res_jobId r = job_id job \<and>
   res_runId r = ''skipped_'' @ numberToString (Num (clock e (ticks w))) \<and>
   error r = Some \<lparr>message = msg, stack = None\<rparr> \<and> duration r = 0"
  unfolding skippedResult_def now_def Let_def prod.case by auto

lemma scheduler_start_shuttingDown:
  "shuttingDown s \<Longrightarrow>
   scheduler_executeJob_start e job s w =
     (Skipped (fst (skippedResult ''Scheduler is shutting down'' e job w)), s,
      snd (skippedResult ''Scheduler is shutting down'' e job w))"
  unfolding scheduler_executeJob_start_def Let_def
  by (cases "skippedResult ''Scheduler is shutting down'' e job w") simp

lemma scheduler_start_running:
  assumes "\<not> shuttingDown s" "generateRunId e w = (runId, w1)" "now e w1 = (startedAt, w2)"
    "run e job w2 = (out, ac, w3)"
  shows "scheduler_executeJob_start e job s w =
     (Awaiting runId,
      s\<lparr>inFlightJobs := (inFlightJobs s)
          (runId \<mapsto> \<lparr>if_jobId = job_id job, if_runId = runId, if_startedAt = startedAt,
                      promise = out\<rparr>)\<rparr>, w3)"
  unfolding scheduler_executeJob_start_def Let_def assms(2) prod.case assms(3) assms(4)
  using assms(1) by simp



lemma generateRunId_value:
  "fst (generateRunId e w) =
     ''run_'' @ numberToString (Num (clock e (ticks w))) @ ''_'' @ random e (draws w)"
  unfolding generateRunId_def now_def draw_def Let_def prod.case fst_conv
  by simp

lemma worker_start_shuttingDown:
  "wk_shuttingDown k \<Longrightarrow>
   worker_executeJob_start e job k w =
     (Skipped (fst (skippedResult ''Worker is shutting down'' e job w)), k,
      snd (skippedResult ''Worker is shutting down'' e job w))"
  unfolding worker_executeJob_start_def Let_def
  by (cases "skippedResult ''Worker is shutting down'' e job w") simp

lemma worker_start_running:
  assumes "\<not> wk_shuttingDown k"
    and "run (interleaved (ticks w + syncReadings e job w) e) job w = (out, ac, w1)"
  shows "worker_executeJob_start e job k w =
     (Awaiting (job_id job @ ''_'' @
        numberToString (Num (clock e (ticks w + syncReadings e job w)))),
      k\<lparr>wk_inFlight := (wk_inFlight k)
          (job_id job @ ''_'' @
             numberToString (Num (clock e (ticks w + syncReadings e job w))) \<mapsto> out)\<rparr>,
      w1\<lparr>ticks := Suc (ticks w1)\<rparr>)"
  unfolding worker_executeJob_start_def Let_def assms(2) prod.case if_not_P [OF assms(1)]
  by (rule refl)

lemma scheduler_shutdown_result:
  assumes "shuttingDown s"
  shows "\<exists>r w'. scheduler_executeJob_start e job s w = (Skipped r, s, w') \<and>
     scheduler_executeJob e job s w = (Resolved r, s, w') \<and>
     res_jobId r = job_id job \<and> status r = Failure \<and> res_attempt r = 0 \<and>
     res_runId r = ''skipped_'' @ numberToString (Num (clock e (ticks w))) \<and>
     error r = Some \<lparr>message = ''Scheduler is shutting down'', stack = None\<rparr> \<and>
     emitted w' = emitted w \<and> notified w' = notified w \<and>
     invocations w' = invocations w \<and> sleeps w' = sleeps w"
proof -
  obtain r w' where sk: "skippedResult ''Scheduler is shutting down'' e job w = (r, w')"
    by (cases "skippedResult ''Scheduler is shutting down'' e job w")
  have st: "scheduler_executeJob_start e job s w = (Skipped r, s, w')"
    unfolding scheduler_start_shuttingDown [OF assms] sk by simp
  have ex: "scheduler_executeJob e job s w = (Resolved r, s, w')"
    unfolding scheduler_executeJob_def st by simp
  note fr = skippedResult_frame [OF sk]
  show ?thesis
    apply (rule exI [where x = r], rule exI [where x = w'])
    apply (intro conjI)
              apply (rule st)
             apply (rule ex)
            apply (simp_all only: fr)
    done
qed

lemma worker_shutdown_result:
  assumes "wk_shuttingDown k"
  shows "\<exists>r w'. worker_executeJob_start e job k w = (Skipped r, k, w') \<and>
     worker_executeJob e job k w = (Resolved r, k, w') \<and>
     res_jobId r = job_id job \<and> status r = Failure \<and> res_attempt r = 0 \<and>
     res_runId r = ''skipped_'' @ numberToString (Num (clock e (ticks w))) \<and>
     error r = Some \<lparr>message = ''Worker is shutting down'', stack = None\<rparr> \<and>
     emitted w' = emitted w \<and> notified w' = notified w \<and>
     invocations w' = invocations w \<and> sleeps w' = sleeps w"
proof -
  obtain r w' where sk: "skippedResult ''Worker is shutting down'' e job w = (r, w')"
    by (cases "skippedResult ''Worker is shutting down'' e job w")
  have st: "worker_executeJob_start e job k w = (Skipped r, k, w')"
    unfolding worker_start_shuttingDown [OF assms] sk by simp
  have ex: "worker_executeJob e job k w = (Resolved r, k, w')"
    unfolding worker_executeJob_def st by simp
  note fr = skippedResult_frame [OF sk]
  show ?thesis
    apply (rule exI [where x = r], rule exI [where x = w'])
    apply (intro conjI)
              apply (rule st)
             apply (rule ex)
            apply (simp_all only: fr)
    done
qed

lemma scheduler_settle_registered:
  "scheduler_executeJob_settle runId (s\<lparr>inFlightJobs := (inFlightJobs s)(runId \<mapsto> h)\<rparr>) =
     (promise h,
      if promise h = Pending then s\<lparr>inFlightJobs := (inFlightJobs s)(runId \<mapsto> h)\<rparr>
      else s\<lparr>inFlightJobs := (inFlightJobs s)(runId := None)\<rparr>)"
  unfolding scheduler_executeJob_settle_def
  by (cases "promise h") simp_all

lemma worker_settle_registered:
  "worker_executeJob_settle key (k\<lparr>wk_inFlight := (wk_inFlight k)(key \<mapsto> out)\<rparr>) =
     (out,
      if out = Pending then k\<lparr>wk_inFlight := (wk_inFlight k)(key \<mapsto> out)\<rparr>
      else k\<lparr>wk_inFlight := (wk_inFlight k)(key := None)\<rparr>)"
  unfolding worker_executeJob_settle_def
  by (cases out) simp_all

lemma scheduler_running_result:
  assumes "\<not> shuttingDown s"
  shows "\<exists>runId startedAt w2 out ac w3.
     runId = ''run_'' @ numberToString (Num (clock e (ticks w))) @ ''_'' @ random e (draws w) \<and>
     listeners w2 = listeners w \<and> emitted w2 = emitted w \<and> notified w2 = notified w \<and>
     invocations w2 = invocations w \<and> sleeps w2 = sleeps w \<and>
     run e job w2 = (out, ac, w3) \<and>
     scheduler_executeJob_start e job s w =
       (Awaiting runId,
        s\<lparr>inFlightJobs := (inFlightJobs s)
            (runId \<mapsto> \<lparr>if_jobId = job_id job, if_runId = runId, if_startedAt = startedAt,
                        promise = out\<rparr>)\<rparr>, w3) \<and>
     scheduler_executeJob e job s w =
       (out,
        (if out = Pending
         then s\<lparr>inFlightJobs := (inFlightJobs s)
            (runId \<mapsto> \<lparr>if_jobId = job_id job, if_runId = runId, if_startedAt = startedAt,
                        promise = out\<rparr>)\<rparr>
         else s\<lparr>inFlightJobs := (inFlightJobs s)(runId := None)\<rparr>), w3)"
proof -
  obtain runId w1 where g: "generateRunId e w = (runId, w1)"
    by (cases "generateRunId e w")
  obtain startedAt w2 where n: "now e w1 = (startedAt, w2)"
    by (cases "now e w1")
  obtain out ac w3 where r: "run e job w2 = (out, ac, w3)"
    by (cases "run e job w2")
  have id: "runId = ''run_'' @ numberToString (Num (clock e (ticks w))) @ ''_'' @ random e (draws w)"
    using generateRunId_value [of e w] unfolding g fst_conv .
  have fr: "listeners w2 = listeners w" "emitted w2 = emitted w" "notified w2 = notified w"
     "invocations w2 = invocations w" "sleeps w2 = sleeps w"
    using generateRunId_frame [OF g] now_frame [OF n] by simp_all
  note st = scheduler_start_running [OF assms g n r]
  have ex: "scheduler_executeJob e job s w =
       (out,
        (if out = Pending
         then s\<lparr>inFlightJobs := (inFlightJobs s)
            (runId \<mapsto> \<lparr>if_jobId = job_id job, if_runId = runId, if_startedAt = startedAt,
                        promise = out\<rparr>)\<rparr>
         else s\<lparr>inFlightJobs := (inFlightJobs s)(runId := None)\<rparr>), w3)"
    unfolding scheduler_executeJob_def st started.case prod.case scheduler_settle_registered
    by simp
  show ?thesis
    apply (rule exI [where x = runId], rule exI [where x = startedAt], rule exI [where x = w2])
    apply (rule exI [where x = out], rule exI [where x = ac], rule exI [where x = w3])
    apply (intro conjI)
            apply (rule id)
           apply (rule fr)+
       apply (rule r)
     apply (rule st)
    apply (rule ex)
    done
qed

lemma worker_running_result:
  assumes "\<not> wk_shuttingDown k"
  shows "\<exists>key out ac w1.
     run (interleaved (ticks w + syncReadings e job w) e) job w = (out, ac, w1) \<and>
     key = job_id job @ ''_'' @
       numberToString (Num (clock e (ticks w + syncReadings e job w))) \<and>
     worker_executeJob_start e job k w =
       (Awaiting key, k\<lparr>wk_inFlight := (wk_inFlight k)(key \<mapsto> out)\<rparr>,
        w1\<lparr>ticks := Suc (ticks w1)\<rparr>) \<and>
     worker_executeJob e job k w =
       (out,
        (if out = Pending then k\<lparr>wk_inFlight := (wk_inFlight k)(key \<mapsto> out)\<rparr>
         else k\<lparr>wk_inFlight := (wk_inFlight k)(key := None)\<rparr>),
        w1\<lparr>ticks := Suc (ticks w1)\<rparr>)"
proof -
  define key where
    "key = job_id job @ ''_'' @ numberToString (Num (clock e (ticks w + syncReadings e job w)))"
  obtain out ac w1 where
    r: "run (interleaved (ticks w + syncReadings e job w) e) job w = (out, ac, w1)"
    by (cases "run (interleaved (ticks w + syncReadings e job w) e) job w")
  have st: "worker_executeJob_start e job k w =
       (Awaiting key, k\<lparr>wk_inFlight := (wk_inFlight k)(key \<mapsto> out)\<rparr>,
        w1\<lparr>ticks := Suc (ticks w1)\<rparr>)"
    unfolding key_def by (rule worker_start_running [OF assms r])
  have ex: "worker_executeJob e job k w =
       (out,
        (if out = Pending then k\<lparr>wk_inFlight := (wk_inFlight k)(key \<mapsto> out)\<rparr>
         else k\<lparr>wk_inFlight := (wk_inFlight k)(key := None)\<rparr>),
        w1\<lparr>ticks := Suc (ticks w1)\<rparr>)"
    unfolding worker_executeJob_def st started.case prod.case worker_settle_registered
    by simp
  show ?thesis
    apply (rule exI [where x = key], rule exI [where x = out], rule exI [where x = ac])
    apply (rule exI [where x = w1])
    apply (intro conjI)
       apply (rule r)
      apply (rule key_def)
     apply (rule st)
    apply (rule ex)
    done
qed

lemma fallthrough_when_no_attempts:
  "maxAttemptsOf job < 1 \<Longrightarrow>
   attemptLoop e job runId s (maxAttemptsOf job) 1 None ac w = (Fallthrough 1 None, ac, w)"
  by (simp add: attemptLoop_done)










text \<open>
  Claim C3. When the timer of an attempt wins the race against the handler, the engine
  fires the cancellation token, so that the signal in the context of that handler becomes
  aborted. The code does not do so: \<open>run\<close> creates one abort controller, hands its signal
  to every attempt and to both callbacks, and never calls \<open>abort\<close> on it. Whatever the job,
  the clock and the listeners, the controller is not aborted when the run ends, also when
  the run ends with status \<open>timeout\<close>.
\<close>

theorem timeout_leaves_signal_unaborted:
  assumes "run e job w = (out, ac, w')"
  shows "aborted ac = False"
  using assms by (rule run_controller)

theorem timeout_leaves_signal_unaborted_witness:
  "\<exists>r ac w'.
     run testEnv (createMockJob (\<lambda>ctx. OutlastsTimer) (emptyConfig\<lparr>timeout := Some ''50ms''\<rparr>))
       freshEngine = (Resolved r, ac, w') \<and>
     status r = Timeout \<and>
     error r = Some \<lparr>message = ''Execution timed out after 50ms'', stack = None\<rparr> \<and>
     map ctx_signal (invocations w') = [ac] \<and>
     aborted ac = False"
proof -
  define job where
    "job = createMockJob (\<lambda>ctx. OutlastsTimer) (emptyConfig\<lparr>timeout := Some ''50ms''\<rparr>)"
  obtain out ac w' where r: "run testEnv job freshEngine = (out, ac, w')"
    by (cases "run testEnv job freshEngine")
  have "(case run testEnv job freshEngine of
           (out, ac, w') \<Rightarrow>
             (case out of
                Resolved r \<Rightarrow>
                  status r = Timeout \<and>
                  error r =
                    Some \<lparr>message = ''Execution timed out after 50ms'', stack = None\<rparr>
              | Rejected t \<Rightarrow> False
              | Pending \<Rightarrow> False) \<and>
             map ctx_signal (invocations w') = [ac])"
    unfolding job_def by code_simp
  then obtain res where
    e: "out = Resolved res" "status res = Timeout"
       "error res = Some \<lparr>message = ''Execution timed out after 50ms'', stack = None\<rparr>"
       "map ctx_signal (invocations w') = [ac]"
    unfolding r by (cases out) auto
  from timeout_leaves_signal_unaborted [OF r] have "aborted ac = False" .
  with r e have "run testEnv job freshEngine = (Resolved res, ac, w') \<and>
     status res = Timeout \<and>
     error res = Some \<lparr>message = ''Execution timed out after 50ms'', stack = None\<rparr> \<and>
     map ctx_signal (invocations w') = [ac] \<and>
     aborted ac = False"
    by simp
  then show ?thesis
    unfolding job_def
    by (intro exI [where x = res] exI [where x = ac] exI [where x = w'])
qed

text \<open>
  Claim C4, as the code has it. While \<open>shuttingDown\<close> is set, \<open>executeJob\<close> of the scheduler
  and of the worker resolves at once, without calling \<open>engine.run\<close> (no event is emitted, no
  listener and no handler is called), to a result with status \<open>failure\<close>, attempt 0 and
  the run id \<open>skipped_\<close> followed by the clock's reading; the message is
  \<open>Scheduler is shutting down\<close> in the scheduler and \<open>Worker is shutting down\<close> in the
  worker. Otherwise the scheduler makes a run id of its own, \<open>run_\<close>, the clock's reading,
  \<open>_\<close> and a random part, calls \<open>engine.run\<close> and registers a handle with the run's promise
  under that id; the worker calls \<open>engine.run\<close> and registers the promise under the job id,
  \<open>_\<close> and the clock's reading. In both, the call ends as the run ends, and the entry
  under the key is removed when the run settles; it stays while the run is pending.
\<close>

theorem executeJob_shutdown_and_tracking:
  "(shuttingDown s \<longrightarrow>
      (\<exists>r w'. scheduler_executeJob_start e job s w = (Skipped r, s, w') \<and>
         scheduler_executeJob e job s w = (Resolved r, s, w') \<and>
         res_jobId r = job_id job \<and> status r = Failure \<and> res_attempt r = 0 \<and>
         res_runId r = ''skipped_'' @ numberToString (Num (clock e (ticks w))) \<and>
         error r = Some \<lparr>message = ''Scheduler is shutting down'', stack = None\<rparr> \<and>
         emitted w' = emitted w \<and> notified w' = notified w \<and>
         invocations w' = invocations w \<and> sleeps w' = sleeps w)) \<and>
   (wk_shuttingDown k \<longrightarrow>
      (\<exists>r w'. worker_executeJob_start e job k w = (Skipped r, k, w') \<and>
         worker_executeJob e job k w = (Resolved r, k, w') \<and>
         res_jobId r = job_id job \<and> status r = Failure \<and> res_attempt r = 0 \<and>
         res_runId r = ''skipped_'' @ numberToString (Num (clock e (ticks w))) \<and>
         error r = Some \<lparr>message = ''Worker is shutting down'', stack = None\<rparr> \<and>
         emitted w' = emitted w \<and> notified w' = notified w \<and>
         invocations w' = invocations w \<and> sleeps w' = sleeps w)) \<and>
   (\<not> shuttingDown s \<longrightarrow>
      (\<exists>runId startedAt w2 out ac w3.
         runId = ''run_'' @ numberToString (Num (clock e (ticks w))) @ ''_'' @
           random e (draws w) \<and>
         listeners w2 = listeners w \<and> emitted w2 = emitted w \<and> notified w2 = notified w \<and>
         invocations w2 = invocations w \<and> sleeps w2 = sleeps w \<and>
         run e job w2 = (out, ac, w3) \<and>
         scheduler_executeJob_start e job s w =
           (Awaiting runId,
            s\<lparr>inFlightJobs := (inFlightJobs s)
                (runId \<mapsto> \<lparr>if_jobId = job_id job, if_runId = runId,
                            if_startedAt = startedAt, promise = out\<rparr>)\<rparr>, w3) \<and>
         scheduler_executeJob e job s w =
           (out,
            (if out = Pending
             then s\<lparr>inFlightJobs := (inFlightJobs s)
                (runId \<mapsto> \<lparr>if_jobId = job_id job, if_runId = runId,
                            if_startedAt = startedAt, promise = out\<rparr>)\<rparr>
             else s\<lparr>inFlightJobs := (inFlightJobs s)(runId := None)\<rparr>), w3))) \<and>
   (\<not> wk_shuttingDown k \<longrightarrow>
      (\<exists>key out ac w1.
         run (interleaved (ticks w + syncReadings e job w) e) job w = (out, ac, w1) \<and>
         key = job_id job @ ''_'' @
           numberToString (Num (clock e (ticks w + syncReadings e job w))) \<and>
         worker_executeJob_start e job k w =
           (Awaiting key, k\<lparr>wk_inFlight := (wk_inFlight k)(key \<mapsto> out)\<rparr>,
            w1\<lparr>ticks := Suc (ticks w1)\<rparr>) \<and>
         worker_executeJob e job k w =
           (out,
            (if out = Pending then k\<lparr>wk_inFlight := (wk_inFlight k)(key \<mapsto> out)\<rparr>
             else k\<lparr>wk_inFlight := (wk_inFlight k)(key := None)\<rparr>),
            w1\<lparr>ticks := Suc (ticks w1)\<rparr>)))"
  apply (intro conjI impI)
     apply (erule scheduler_shutdown_result)
    apply (erule worker_shutdown_result)
   apply (erule scheduler_running_result)
  apply (erule worker_running_result)
  done

theorem executeJob_claim_counterexample:
  "fst (worker_executeJob testEnv (createMockJob (\<lambda>ctx. Returns) emptyConfig)
     (idleWorker\<lparr>wk_shuttingDown := True\<rparr>) freshEngine) =
     Resolved
       \<lparr>res_jobId = ''test-job'', res_runId = ''skipped_1000'', status = Failure,
        res_startedAt = 1001, res_completedAt = 1002, duration = 0, res_attempt = 0,
        error = Some \<lparr>message = ''Worker is shutting down'', stack = None\<rparr>\<rparr> \<and>
   fst (worker_executeJob_start testEnv (createMockJob (\<lambda>ctx. Returns) emptyConfig)
     idleWorker freshEngine) = Awaiting ''test-job_1005'' \<and>
   fst (worker_executeJob testEnv (createMockJob (\<lambda>ctx. Returns) emptyConfig)
     idleWorker freshEngine) =
     Resolved
       \<lparr>res_jobId = ''test-job'', res_runId = ''run_1000_k3x9q0zt1'', status = Success,
        res_startedAt = 1001, res_completedAt = 1006, duration = 5, res_attempt = 1,
        error = None\<rparr>"
  by code_simp

theorem executeJob_shutdown_and_tracking_witness:
  "shuttingDown (idleScheduler\<lparr>shuttingDown := True\<rparr>) \<and>
   (\<exists>r w'. scheduler_executeJob testEnv (createMockJob (\<lambda>ctx. Returns) emptyConfig)
        (idleScheduler\<lparr>shuttingDown := True\<rparr>) freshEngine =
        (Resolved r, idleScheduler\<lparr>shuttingDown := True\<rparr>, w') \<and>
      status r = Failure \<and> res_attempt r = 0 \<and> res_runId r = ''skipped_1000'' \<and>
      error r = Some \<lparr>message = ''Scheduler is shutting down'', stack = None\<rparr> \<and>
      emitted w' = [] \<and> invocations w' = []) \<and>
   wk_shuttingDown (idleWorker\<lparr>wk_shuttingDown := True\<rparr>) \<and>
   (\<exists>r w'. worker_executeJob testEnv (createMockJob (\<lambda>ctx. Returns) emptyConfig)
        (idleWorker\<lparr>wk_shuttingDown := True\<rparr>) freshEngine =
        (Resolved r, idleWorker\<lparr>wk_shuttingDown := True\<rparr>, w') \<and>
      status r = Failure \<and> res_attempt r = 0 \<and> res_runId r = ''skipped_1000'' \<and>
      error r = Some \<lparr>message = ''Worker is shutting down'', stack = None\<rparr> \<and>
      emitted w' = [] \<and> invocations w' = []) \<and>
   \<not> shuttingDown idleScheduler \<and>
   (\<exists>h s' w3. scheduler_executeJob_start testEnv (createMockJob (\<lambda>ctx. Returns) emptyConfig)
        idleScheduler freshEngine = (Awaiting ''run_1000_k3x9q0zt1'', s', w3) \<and>
      inFlightJobs s' ''run_1000_k3x9q0zt1'' = Some h \<and>
      promise h = fst (scheduler_executeJob testEnv
        (createMockJob (\<lambda>ctx. Returns) emptyConfig) idleScheduler freshEngine)) \<and>
   (\<exists>r s' w3. scheduler_executeJob testEnv (createMockJob (\<lambda>ctx. Returns) emptyConfig)
        idleScheduler freshEngine = (Resolved r, s', w3) \<and>
      inFlightJobs s' ''run_1000_k3x9q0zt1'' = None) \<and>
   \<not> wk_shuttingDown idleWorker \<and>
   (\<exists>k' w'. worker_executeJob_start testEnv (createMockJob (\<lambda>ctx. Returns) emptyConfig)
        idleWorker freshEngine = (Awaiting ''test-job_1005'', k', w') \<and>
      wk_inFlight k' ''test-job_1005'' =
        Some (fst (worker_executeJob testEnv (createMockJob (\<lambda>ctx. Returns) emptyConfig)
          idleWorker freshEngine))) \<and>
   (\<exists>r k' w'. worker_executeJob testEnv (createMockJob (\<lambda>ctx. Returns) emptyConfig)
        idleWorker freshEngine = (Resolved r, k', w') \<and>
      wk_inFlight k' ''test-job_1005'' = None)"
proof -
  define job where "job = createMockJob (\<lambda>ctx. Returns) emptyConfig"
  define s1 where "s1 = idleScheduler\<lparr>shuttingDown := True\<rparr>"
  define k1 where "k1 = idleWorker\<lparr>wk_shuttingDown := True\<rparr>"
  have h1: "shuttingDown s1" by (simp add: s1_def)
  have h2: "wk_shuttingDown k1" by (simp add: k1_def)
  have h3: "\<not> shuttingDown idleScheduler" by (simp add: idleScheduler_def)
  have h4: "\<not> wk_shuttingDown idleWorker" by (simp add: idleWorker_def)
  have fe: "emitted freshEngine = []" "invocations freshEngine = []"
    by (simp_all add: freshEngine_def)
  have c1: "''skipped_'' @ numberToString (Num (clock testEnv (ticks freshEngine))) =
      ''skipped_1000''"
    by code_simp
  have c2: "''run_'' @ numberToString (Num (clock testEnv (ticks freshEngine))) @ ''_'' @
      random testEnv (draws freshEngine) = ''run_1000_k3x9q0zt1''"
    by code_simp
  have c3: "job_id job @ ''_'' @
      numberToString
        (Num (clock testEnv (ticks freshEngine + syncReadings testEnv job freshEngine))) =
      ''test-job_1005''"
    unfolding job_def by code_simp
  have c4: "(case fst (scheduler_executeJob testEnv job idleScheduler freshEngine) of
               Resolved r \<Rightarrow> True | Rejected t \<Rightarrow> False | Pending \<Rightarrow> False)"
    unfolding job_def by code_simp
  have c5: "(case fst (worker_executeJob testEnv job idleWorker freshEngine) of
               Resolved r \<Rightarrow> True | Rejected t \<Rightarrow> False | Pending \<Rightarrow> False)"
    unfolding job_def by code_simp
  from executeJob_shutdown_and_tracking [where s = s1 and e = testEnv and job = job
      and w = freshEngine, THEN conjunct1, THEN mp, OF h1]
  obtain r w' where
    "scheduler_executeJob testEnv job s1 freshEngine = (Resolved r, s1, w')"
    "status r = Failure" "res_attempt r = 0"
    "res_runId r = ''skipped_'' @ numberToString (Num (clock testEnv (ticks freshEngine)))"
    "error r = Some \<lparr>message = ''Scheduler is shutting down'', stack = None\<rparr>"
    "emitted w' = emitted freshEngine" "invocations w' = invocations freshEngine"
    by (elim exE conjE)
  then have A: "\<exists>r w'. scheduler_executeJob testEnv job s1 freshEngine = (Resolved r, s1, w') \<and>
      status r = Failure \<and> res_attempt r = 0 \<and> res_runId r = ''skipped_1000'' \<and>
      error r = Some \<lparr>message = ''Scheduler is shutting down'', stack = None\<rparr> \<and>
      emitted w' = [] \<and> invocations w' = []"
    unfolding c1 fe by (intro exI [where x = r] exI [where x = w'] conjI)
  from executeJob_shutdown_and_tracking [where k = k1 and e = testEnv and job = job
      and w = freshEngine, THEN conjunct2, THEN conjunct1, THEN mp, OF h2]
  obtain r w' where
    "worker_executeJob testEnv job k1 freshEngine = (Resolved r, k1, w')"
    "status r = Failure" "res_attempt r = 0"
    "res_runId r = ''skipped_'' @ numberToString (Num (clock testEnv (ticks freshEngine)))"
    "error r = Some \<lparr>message = ''Worker is shutting down'', stack = None\<rparr>"
    "emitted w' = emitted freshEngine" "invocations w' = invocations freshEngine"
    by (elim exE conjE)
  then have B: "\<exists>r w'. worker_executeJob testEnv job k1 freshEngine = (Resolved r, k1, w') \<and>
      status r = Failure \<and> res_attempt r = 0 \<and> res_runId r = ''skipped_1000'' \<and>
      error r = Some \<lparr>message = ''Worker is shutting down'', stack = None\<rparr> \<and>
      emitted w' = [] \<and> invocations w' = []"
    unfolding c1 fe by (intro exI [where x = r] exI [where x = w'] conjI)
  from executeJob_shutdown_and_tracking [where s = idleScheduler and e = testEnv and job = job
      and w = freshEngine, THEN conjunct2, THEN conjunct2, THEN conjunct1, THEN mp, OF h3]
  obtain runId startedAt out w3 where
    id: "runId = ''run_'' @ numberToString (Num (clock testEnv (ticks freshEngine))) @ ''_'' @
           random testEnv (draws freshEngine)"
    and st: "scheduler_executeJob_start testEnv job idleScheduler freshEngine =
           (Awaiting runId,
            idleScheduler\<lparr>inFlightJobs := (inFlightJobs idleScheduler)
                (runId \<mapsto> \<lparr>if_jobId = job_id job, if_runId = runId,
                            if_startedAt = startedAt, promise = out\<rparr>)\<rparr>, w3)"
    and ex: "scheduler_executeJob testEnv job idleScheduler freshEngine =
           (out,
            (if out = Pending
             then idleScheduler\<lparr>inFlightJobs := (inFlightJobs idleScheduler)
                (runId \<mapsto> \<lparr>if_jobId = job_id job, if_runId = runId,
                            if_startedAt = startedAt, promise = out\<rparr>)\<rparr>
             else idleScheduler\<lparr>inFlightJobs := (inFlightJobs idleScheduler)(runId := None)\<rparr>),
            w3)"
    by (elim exE conjE)
  from id have id': "runId = ''run_1000_k3x9q0zt1''" unfolding c2 .
  from c4 obtain res where o: "out = Resolved res"
    unfolding ex fst_conv by (cases out) simp_all
  have C1: "\<exists>h s' w3. scheduler_executeJob_start testEnv job idleScheduler freshEngine =
        (Awaiting ''run_1000_k3x9q0zt1'', s', w3) \<and>
      inFlightJobs s' ''run_1000_k3x9q0zt1'' = Some h \<and>
      promise h = fst (scheduler_executeJob testEnv job idleScheduler freshEngine)"
    unfolding st ex fst_conv id' [symmetric]
    apply (rule exI [where x = "\<lparr>if_jobId = job_id job, if_runId = runId,
      if_startedAt = startedAt, promise = out\<rparr>"])
    apply (intro exI conjI, rule refl)
     apply simp
    apply simp
    done
  have C2: "\<exists>r s' w3. scheduler_executeJob testEnv job idleScheduler freshEngine =
        (Resolved r, s', w3) \<and> inFlightJobs s' ''run_1000_k3x9q0zt1'' = None"
    unfolding ex id' [symmetric] o
    by (intro exI conjI, rule refl) simp
  from executeJob_shutdown_and_tracking [where k = idleWorker and e = testEnv and job = job
      and w = freshEngine, THEN conjunct2, THEN conjunct2, THEN conjunct2, THEN mp, OF h4]
  obtain key out' w1 where
    kd: "key = job_id job @ ''_'' @
           numberToString
             (Num (clock testEnv (ticks freshEngine + syncReadings testEnv job freshEngine)))"
    and wst: "worker_executeJob_start testEnv job idleWorker freshEngine =
           (Awaiting key, idleWorker\<lparr>wk_inFlight := (wk_inFlight idleWorker)(key \<mapsto> out')\<rparr>,
            w1\<lparr>ticks := Suc (ticks w1)\<rparr>)"
    and wex: "worker_executeJob testEnv job idleWorker freshEngine =
           (out',
            (if out' = Pending
             then idleWorker\<lparr>wk_inFlight := (wk_inFlight idleWorker)(key \<mapsto> out')\<rparr>
             else idleWorker\<lparr>wk_inFlight := (wk_inFlight idleWorker)(key := None)\<rparr>),
            w1\<lparr>ticks := Suc (ticks w1)\<rparr>)"
    by (elim exE conjE)
  from kd have kd': "key = ''test-job_1005''" unfolding c3 .
  from c5 obtain res' where o': "out' = Resolved res'"
    unfolding wex fst_conv by (cases out') simp_all
  have D1: "\<exists>k' w'. worker_executeJob_start testEnv job idleWorker freshEngine =
        (Awaiting ''test-job_1005'', k', w') \<and>
      wk_inFlight k' ''test-job_1005'' =
        Some (fst (worker_executeJob testEnv job idleWorker freshEngine))"
    unfolding wst wex fst_conv kd' [symmetric]
    by (intro exI conjI, rule refl) simp
  have D2: "\<exists>r k' w'. worker_executeJob testEnv job idleWorker freshEngine =
        (Resolved r, k', w') \<and> wk_inFlight k' ''test-job_1005'' = None"
    unfolding wex kd' [symmetric] o'
    by (intro exI conjI, rule refl) simp
  from h1 A h2 B h3 C1 C2 h4 D1 D2 show ?thesis
    unfolding job_def s1_def k1_def by (intro conjI)
qed

end
